theory Spec2Isabelle
  imports Main "HOL-Library.Word"
begin

unbundle bit_operations_syntax

section \<open>The ARM JIT translator of core/arm/jit: IR and translation loop\<close>

text \<open>
  A shallow embedding of \<^verbatim>\<open>core/arm/jit/ir.h\<close> and \<^verbatim>\<open>core/arm/jit/translate.cpp\<close>.
  The translator object becomes a record that every method takes and returns; a
  \<^verbatim>\<open>std::shared_ptr<MicroValue>\<close> becomes the position of the node in the block's
  instruction list, which owns every node; an access past the end of the
  register cache becomes the error value \<open>OutOfBounds\<close>.
\<close>

subsection \<open>Basic types\<close>

type_synonym u32 = "32 word"

text \<open>
  Modelled from the spec: \<^verbatim>\<open>ArmDecoder::Register\<close> is declared in decoder.h,
  which is missing from the sources. By section 6 of the specification a
  register index has four bits, R0 to R15, and by section 4.3 PC is the index
  15; translate.cpp names \<^verbatim>\<open>ArmReg::PC\<close> and casts a register to its index.
\<close>

type_synonym ArmReg = "4 word"

abbreviation PC :: ArmReg where
  "PC \<equiv> 15"

text \<open>
  Modelled from the spec: \<^verbatim>\<open>ArmDecoder::Imm8\<close> and \<^verbatim>\<open>ArmDecoder::Imm24\<close>, declared
  in the missing decoder.h; by section 6 of the specification immediates of the
  widths 8 and 24.
\<close>

type_synonym ArmImm8 = "8 word"
type_synonym ArmImm24 = "24 word"

text \<open>
  Modelled from the spec: \<^verbatim>\<open>ArmDecoder::Cond\<close>, declared in the missing
  decoder.h; section 6 of the specification lists the sixteen condition codes.
\<close>

datatype Cond = EQ | NE | CS | CC | MI | PL | VS | VC | HI | LS | GE | LT | GT | LE | AL | NV

text \<open>
  \<^verbatim>\<open>LocationDescriptor\<close> (declared in the missing common.h), with the fields that
  translate.cpp reads, in the order in which \<^verbatim>\<open>ConditionPassed\<close> initialises
  them: \<^verbatim>\<open>{current.arm_pc, current.TFlag, current.EFlag, cond}\<close>.
\<close>

record LocationDescriptor =
  arm_pc :: u32
  TFlag :: bool
  EFlag :: bool
  cond :: Cond

subsection \<open>ir.h: terminals, flags, opcodes, values, blocks\<close>

text \<open>
  \<^verbatim>\<open>MicroTerm::MicroTerminal\<close>, a \<^verbatim>\<open>boost::variant\<close> whose first alternative is
  \<^verbatim>\<open>ReturnToDispatch\<close>. The recursive alternative \<^verbatim>\<open>If\<close> is called \<open>If_term\<close> here.
\<close>

datatype MicroTerminal =
    ReturnToDispatch
  | PopRSBHint
  | Interpret LocationDescriptor
  | LinkBlock LocationDescriptor
  | LinkBlockFast LocationDescriptor
  | If_term Cond MicroTerminal MicroTerminal

text \<open>A default-constructed \<^verbatim>\<open>boost::variant\<close> holds a default-constructed value of its first alternative.\<close>

definition MicroTerminal_default :: MicroTerminal where
  "MicroTerminal_default = ReturnToDispatch"

text \<open>\<^verbatim>\<open>enum class MicroArmFlags\<close>: a bit mask.\<close>

type_synonym MicroArmFlags = "32 word"

definition MicroArmFlags_N :: MicroArmFlags where
  "MicroArmFlags_N = push_bit 0 1"

definition MicroArmFlags_Z :: MicroArmFlags where
  "MicroArmFlags_Z = push_bit 1 1"

definition MicroArmFlags_C :: MicroArmFlags where
  "MicroArmFlags_C = push_bit 2 1"

definition MicroArmFlags_V :: MicroArmFlags where
  "MicroArmFlags_V = push_bit 3 1"

definition MicroArmFlags_Q :: MicroArmFlags where
  "MicroArmFlags_Q = push_bit 4 1"

definition MicroArmFlags_GE :: MicroArmFlags where
  "MicroArmFlags_GE = push_bit 5 1"

definition MicroArmFlags_None :: MicroArmFlags where
  "MicroArmFlags_None = 0"

definition MicroArmFlags_NZC :: MicroArmFlags where
  "MicroArmFlags_NZC = MicroArmFlags_N OR MicroArmFlags_Z OR MicroArmFlags_C"

definition MicroArmFlags_NZCV :: MicroArmFlags where
  "MicroArmFlags_NZCV = MicroArmFlags_N OR MicroArmFlags_Z OR MicroArmFlags_C OR MicroArmFlags_V"

definition MicroArmFlags_Any :: MicroArmFlags where
  "MicroArmFlags_Any =
     MicroArmFlags_N OR MicroArmFlags_Z OR MicroArmFlags_C OR MicroArmFlags_V
       OR MicroArmFlags_Q OR MicroArmFlags_GE"

text \<open>\<^verbatim>\<open>enum class MicroOp\<close>, each enumerator prefixed with \<open>Op\<close>.\<close>

datatype MicroOp =
    OpConstU32
  | OpGetGPR
  | OpSetGPR
  | OpPushRSBHint
  | OpAluWritePC
  | OpLoadWritePC
  | OpAdd
  | OpAddWithCarry
  | OpSub
  | OpAnd
  | OpEor
  | OpNot
  | OpLSL
  | OpLSR
  | OpASR
  | OpROR
  | OpRRX
  | OpCountLeadingZeros
  | OpClearExclusive
  | OpRead32

text \<open>
  Modelled from the spec: \<^verbatim>\<open>GetMicroOpInfo\<close> is declared in ir.h and defined
  in neither ir.h nor translate.cpp. Its \<^verbatim>\<open>default_write_flags\<close> column follows the
  comments on the enumerators of \<^verbatim>\<open>MicroOp\<close> in ir.h (\<^verbatim>\<open>writes ASPR.NZCV\<close>,
  \<^verbatim>\<open>writes ASPR.NZC\<close>, \<^verbatim>\<open>writes ASPR.C\<close>) and section 6 of the specification:
  Add, AddWithCarry and Sub default to NZCV, And and Eor to NZC, the four shifts
  to C, every other opcode to no flag.
\<close>

fun default_write_flags :: "MicroOp \<Rightarrow> MicroArmFlags" where
  "default_write_flags OpAdd = MicroArmFlags_NZCV"
| "default_write_flags OpAddWithCarry = MicroArmFlags_NZCV"
| "default_write_flags OpSub = MicroArmFlags_NZCV"
| "default_write_flags OpAnd = MicroArmFlags_NZC"
| "default_write_flags OpEor = MicroArmFlags_NZC"
| "default_write_flags OpLSL = MicroArmFlags_C"
| "default_write_flags OpLSR = MicroArmFlags_C"
| "default_write_flags OpASR = MicroArmFlags_C"
| "default_write_flags OpROR = MicroArmFlags_C"
| "default_write_flags _ = MicroArmFlags_None"

text \<open>
  A handle to a node (\<^verbatim>\<open>std::shared_ptr<MicroValue>\<close>) is the node's position in
  \<^verbatim>\<open>MicroBlock::instructions\<close>; two handles are the same node exactly when they
  are the same position.
\<close>

type_synonym value_ref = nat

text \<open>
  The four classes derived from \<^verbatim>\<open>MicroValue\<close>: \<^verbatim>\<open>MicroConstU32\<close> (value),
  \<^verbatim>\<open>MicroGetGPR\<close> (reg), \<^verbatim>\<open>MicroSetGPR\<close> (reg, arg) and \<^verbatim>\<open>MicroInst\<close>
  (op, args, write\_flags).
\<close>

datatype MicroValue =
    MicroConstU32 u32
  | MicroGetGPR ArmReg
  | MicroSetGPR ArmReg value_ref
  | MicroInst MicroOp "value_ref list" MicroArmFlags

text \<open>\<^verbatim>\<open>MicroInst::SetWriteFlags\<close> stores the flags it is given; other nodes have none.\<close>

fun SetWriteFlags :: "MicroArmFlags \<Rightarrow> MicroValue \<Rightarrow> MicroValue" where
  "SetWriteFlags flags (MicroInst op args write_flags) = MicroInst op args flags"
| "SetWriteFlags flags v = v"

record MicroBlock =
  location :: LocationDescriptor
  instructions :: "MicroValue list"
  terminal :: MicroTerminal

text \<open>
  The constructor \<^verbatim>\<open>MicroBlock(location)\<close> initialises \<^verbatim>\<open>location\<close> only: the
  list is empty and the terminal is default-constructed.
\<close>

definition MicroBlock_new :: "LocationDescriptor \<Rightarrow> MicroBlock" where
  "MicroBlock_new loc =
     \<lparr>location = loc, instructions = [], terminal = MicroTerminal_default\<rparr>"

subsection \<open>The IR builder\<close>

text \<open>
  Modelled from the spec: \<^verbatim>\<open>MicroBuilder\<close> (ir\_builder.h) is missing from
  the sources; translate.cpp shows that it is constructed from a location, holds
  the block as \<^verbatim>\<open>ir.block\<close>, and has the members used below.
\<close>

record MicroBuilder =
  block :: MicroBlock

text \<open>
  Modelled from the spec: the constructor \<^verbatim>\<open>MicroBuilder(location)\<close>, missing
  with ir\_builder.h; it constructs the block for the location.
\<close>

definition MicroBuilder_new :: "LocationDescriptor \<Rightarrow> MicroBuilder" where
  "MicroBuilder_new loc = \<lparr>block = MicroBlock_new loc\<rparr>"

text \<open>
  Modelled from the spec: what the node-constructing members of the missing
  \<^verbatim>\<open>MicroBuilder\<close> share. By sections 3 and 4.3 and scenario 2 of section 8 of
  the specification a new node is appended to the body of the block, in emission
  order, and returned; its handle is its position in the body.
\<close>

definition emplace_back :: "MicroValue \<Rightarrow> MicroBuilder \<Rightarrow> value_ref \<times> MicroBuilder" where
  "emplace_back v b =
     (length (instructions (block b)),
      b\<lparr>block := (block b)\<lparr>instructions := instructions (block b) @ [v]\<rparr>\<rparr>)"

text \<open>
  Modelled from the spec: \<^verbatim>\<open>MicroBuilder::ConstU32\<close>, missing with ir\_builder.h;
  it emits a new \<^verbatim>\<open>MicroConstU32\<close> node.
\<close>

definition ConstU32 :: "u32 \<Rightarrow> MicroBuilder \<Rightarrow> value_ref \<times> MicroBuilder" where
  "ConstU32 v b = emplace_back (MicroConstU32 v) b"

text \<open>
  Modelled from the spec: \<^verbatim>\<open>MicroBuilder::GetGPR\<close>, missing with ir\_builder.h;
  it emits a new \<^verbatim>\<open>MicroGetGPR\<close> node.
\<close>

definition GetGPR :: "ArmReg \<Rightarrow> MicroBuilder \<Rightarrow> value_ref \<times> MicroBuilder" where
  "GetGPR reg b = emplace_back (MicroGetGPR reg) b"

text \<open>
  Modelled from the spec: \<^verbatim>\<open>MicroBuilder::Inst\<close>, missing with ir\_builder.h. By
  section 4.1 of the specification the node is constructed with the default
  write flags of its opcode, and the flags that the caller passes are stored
  with \<^verbatim>\<open>SetWriteFlags\<close>; the node is then emitted.
\<close>

definition Inst :: "MicroOp \<Rightarrow> value_ref list \<Rightarrow> MicroArmFlags \<Rightarrow> MicroBuilder \<Rightarrow> value_ref \<times> MicroBuilder" where
  "Inst op args write_flags b =
     emplace_back (SetWriteFlags write_flags (MicroInst op args (default_write_flags op))) b"

text \<open>
  Modelled from the spec: \<^verbatim>\<open>MicroBuilder::SetTerm\<close>, missing with ir\_builder.h;
  it stores the terminal of the block.
\<close>

definition SetTerm :: "MicroTerminal \<Rightarrow> MicroBuilder \<Rightarrow> MicroBuilder" where
  "SetTerm t b = b\<lparr>block := (block b)\<lparr>terminal := t\<rparr>\<rparr>"

text \<open>
  Modelled from the spec: \<^verbatim>\<open>MicroBuilder::TermInterpret\<close>, missing with
  ir\_builder.h; it makes the terminal \<^verbatim>\<open>MicroTerm::Interpret\<close> of ir.h.
\<close>

definition TermInterpret :: "LocationDescriptor \<Rightarrow> MicroTerminal" where
  "TermInterpret next = Interpret next"

text \<open>
  Modelled from the spec: \<^verbatim>\<open>MicroBuilder::TermLinkBlock\<close>, missing with
  ir\_builder.h; it makes the terminal \<^verbatim>\<open>MicroTerm::LinkBlock\<close> of ir.h.
\<close>

definition TermLinkBlock :: "LocationDescriptor \<Rightarrow> MicroTerminal" where
  "TermLinkBlock next = LinkBlock next"

subsection \<open>The decoder and guest memory, as parameters\<close>

text \<open>
  What the decoder hands to the visitor: the callback and its decoded fields.
  \<^verbatim>\<open>B\<close> and \<^verbatim>\<open>ADD_imm\<close> are the two callbacks with a body of their own, and
  the other branch callbacks are kept with their fields. \<open>Unimplemented\<close> stands
  for each of the remaining 203 callbacks of \<^verbatim>\<open>ArmTranslator\<close> (\<^verbatim>\<open>CDP\<close> to
  \<^verbatim>\<open>thumb_BLX_suffix\<close>): the body of every one of them is the single statement
  \<^verbatim>\<open>FallbackToInterpreter();\<close>, which reads none of the decoded fields; of these
  fields only the condition code is kept, \<open>None\<close> for a callback that has none.
\<close>

datatype ArmInst =
    B Cond ArmImm24
  | BL Cond ArmImm24
  | BLX_imm bool ArmImm24
  | BLX_reg Cond ArmReg
  | BX Cond ArmReg
  | BXJ Cond ArmReg
  | ADD_imm Cond bool ArmReg ArmReg int ArmImm8
  | Unimplemented "Cond option"

text \<open>
  The collaborators that translate.cpp calls and that live in other parts of
  the emulator: \<^verbatim>\<open>Memory::Read32\<close>, \<^verbatim>\<open>ArmDecoder::DecodeArm\<close> (together with the
  field extraction of \<^verbatim>\<open>Visit\<close>) and \<^verbatim>\<open>ArmExpandImm\<close>. They are parameters of
  the model.
\<close>

record env =
  Read32 :: "u32 \<Rightarrow> u32"
  DecodeArm :: "u32 \<Rightarrow> ArmInst option"
  ArmExpandImm :: "ArmImm8 \<Rightarrow> int \<Rightarrow> u32"

subsection \<open>translate.cpp: the translator\<close>

datatype error = AssertionFailed | OutOfBounds

text \<open>
  The data members of \<^verbatim>\<open>ArmTranslator\<close>. \<^verbatim>\<open>reg_values\<close> is a
  \<^verbatim>\<open>std::array<std::shared_ptr<MicroValue>, 15>\<close>; a null pointer is \<open>None\<close>.
\<close>

record ArmTranslator =
  ir :: MicroBuilder
  current :: LocationDescriptor
  instructions_translated :: u32
  stop_compilation :: bool
  reg_values :: "value_ref option list"

definition ArmTranslator_new :: "LocationDescriptor \<Rightarrow> ArmTranslator" where
  "ArmTranslator_new loc =
     \<lparr>ir = MicroBuilder_new loc, current = loc, instructions_translated = 0,
      stop_compilation = False, reg_values = replicate 15 None\<rparr>"

definition GetReg :: "ArmReg \<Rightarrow> ArmTranslator \<Rightarrow> error + (value_ref \<times> ArmTranslator)" where
  "GetReg reg s =
     (if reg = PC then
        (case ConstU32 (arm_pc (current s) + 8) (ir s) of
           (v, b) \<Rightarrow> Inr (v, s\<lparr>ir := b\<rparr>))
      else
        (let reg_index = unat reg in
         if reg_index < length (reg_values s) then
           (case reg_values s ! reg_index of
              None \<Rightarrow>
                (case GetGPR reg (ir s) of
                   (v, b) \<Rightarrow>
                     Inr (v, s\<lparr>ir := b, reg_values := (reg_values s)[reg_index := Some v]\<rparr>))
            | Some v \<Rightarrow> Inr (v, s))
         else Inl OutOfBounds))"

definition SetReg :: "ArmReg \<Rightarrow> value_ref \<Rightarrow> ArmTranslator \<Rightarrow> error + ArmTranslator" where
  "SetReg reg val s =
     (let reg_index = unat reg in
      if reg_index < length (reg_values s) then
        Inr (s\<lparr>reg_values := (reg_values s)[reg_index := Some val]\<rparr>)
      else Inl OutOfBounds)"

definition FallbackToInterpreter :: "ArmTranslator \<Rightarrow> ArmTranslator" where
  "FallbackToInterpreter s =
     s\<lparr>ir := SetTerm (TermInterpret (current s)) (ir s), stop_compilation := True\<rparr>"

definition ConditionPassed :: "Cond \<Rightarrow> ArmTranslator \<Rightarrow> bool \<times> ArmTranslator" where
  "ConditionPassed c s =
     (if c = cond (current s) then (True, s)
      else
        (False,
         s\<lparr>ir := SetTerm (TermLinkBlock
                    \<lparr>arm_pc = arm_pc (current s), TFlag = TFlag (current s),
                     EFlag = EFlag (current s), cond = c\<rparr>) (ir s),
           stop_compilation := True\<rparr>))"

text \<open>
  Modelled from the spec: \<^verbatim>\<open>ALUWritePC\<close> is called by \<^verbatim>\<open>ADD_imm\<close> and neither
  declared nor defined in ir.h or translate.cpp. Section 4.3 of the specification:
  a handler whose destination is PC emits the micro-op \<^verbatim>\<open>AluWritePC\<close> and then
  terminates the block. The specification names no terminal for it; the target
  is known at run time only, so the block returns to the dispatcher.
\<close>

definition ALUWritePC :: "value_ref \<Rightarrow> ArmTranslator \<Rightarrow> ArmTranslator" where
  "ALUWritePC val s =
     (case Inst OpAluWritePC [val] (default_write_flags OpAluWritePC) (ir s) of
        (v, b) \<Rightarrow> s\<lparr>ir := SetTerm ReturnToDispatch b, stop_compilation := True\<rparr>)"

text \<open>\<^verbatim>\<open>ArmTranslator::B\<close>: the condition is ignored and \<^verbatim>\<open>imm24\<close> is added as it is.\<close>

definition B_handler :: "Cond \<Rightarrow> ArmImm24 \<Rightarrow> ArmTranslator \<Rightarrow> ArmTranslator" where
  "B_handler c imm24 s =
     (let next = (current s)\<lparr>arm_pc := arm_pc (current s) + ucast imm24\<rparr> in
      s\<lparr>ir := SetTerm (TermLinkBlock next) (ir s), stop_compilation := True\<rparr>)"

definition advance_pc :: "ArmTranslator \<Rightarrow> ArmTranslator" where
  "advance_pc s = s\<lparr>current := (current s)\<lparr>arm_pc := arm_pc (current s) + 4\<rparr>\<rparr>"

text \<open>
  \<^verbatim>\<open>ArmTranslator::ADD_imm\<close>. The last statement, \<^verbatim>\<open>current.arm_pc += 4\<close>, is
  \<open>advance_pc\<close>; it runs whether the condition passed or not.
\<close>

definition ADD_imm_handler ::
  "env \<Rightarrow> Cond \<Rightarrow> bool \<Rightarrow> ArmReg \<Rightarrow> ArmReg \<Rightarrow> int \<Rightarrow> ArmImm8 \<Rightarrow> ArmTranslator \<Rightarrow> error + ArmTranslator" where
  "ADD_imm_handler e c S n d rotate' imm8 s =
     (let expanded_imm = ArmExpandImm e imm8 rotate';
          set_flags = (if S then MicroArmFlags_NZCV else MicroArmFlags_None)
      in
        (case ConditionPassed c s of
           (True, s1) \<Rightarrow>
             (case GetReg n s1 of
                Inl err \<Rightarrow> Inl err
              | Inr (Rn, s2) \<Rightarrow>
                  (case ConstU32 expanded_imm (ir s2) of
                     (imm32, b3) \<Rightarrow>
                       (case Inst OpAdd [Rn, imm32] set_flags b3 of
                          (result, b4) \<Rightarrow>
                            (case (if d = PC then Inr (ALUWritePC result (s2\<lparr>ir := b4\<rparr>))
                                   else SetReg d result (s2\<lparr>ir := b4\<rparr>)) of
                               Inl err \<Rightarrow> Inl err
                             | Inr s5 \<Rightarrow> Inr (advance_pc s5)))))
         | (False, s1) \<Rightarrow> Inr (advance_pc s1)))"

text \<open>\<^verbatim>\<open>inst_info->Visit(this, inst)\<close>: the dispatch to the callback.\<close>

fun Visit :: "env \<Rightarrow> ArmInst \<Rightarrow> ArmTranslator \<Rightarrow> error + ArmTranslator" where
  "Visit e (B c imm24) s = Inr (B_handler c imm24 s)"
| "Visit e (BL c imm24) s = Inr (FallbackToInterpreter s)"
| "Visit e (BLX_imm H imm24) s = Inr (FallbackToInterpreter s)"
| "Visit e (BLX_reg c Rm_index) s = Inr (FallbackToInterpreter s)"
| "Visit e (BX c Rm_index) s = Inr (FallbackToInterpreter s)"
| "Visit e (BXJ c Rm_index) s = Inr (FallbackToInterpreter s)"
| "Visit e (ADD_imm c S n d rotate' imm8) s = ADD_imm_handler e c S n d rotate' imm8 s"
| "Visit e (Unimplemented c) s = Inr (FallbackToInterpreter s)"

definition TranslateSingleArmInstruction :: "env \<Rightarrow> ArmTranslator \<Rightarrow> error + ArmTranslator" where
  "TranslateSingleArmInstruction e s =
     (let inst = Read32 e (arm_pc (current s) AND 0xFFFFFFFC) in
      case DecodeArm e inst of
        None \<Rightarrow> Inr (FallbackToInterpreter s)
      | Some inst_info \<Rightarrow> Visit e inst_info s)"

subsection \<open>The main loop\<close>

text \<open>
  The \<^verbatim>\<open>while (true)\<close> loop of \<^verbatim>\<open>ArmTranslator::Translate\<close>: translate one
  instruction, count it, leave when the stop flag is set, leave when
  \<^verbatim>\<open>(current.arm_pc & 0xFFF) != 0\<close>, and go round again otherwise.

  The loop terminates: it goes round again only when the handler left the stop
  flag clear and the new \<^verbatim>\<open>arm_pc\<close> is a multiple of 0x1000; a handler that
  leaves the flag clear has added 4 to \<^verbatim>\<open>arm_pc\<close>, so the \<^verbatim>\<open>arm_pc\<close> before it
  was no multiple of 0x1000, and the loop body runs at most twice in a row.
\<close>

function translate_loop :: "env \<Rightarrow> ArmTranslator \<Rightarrow> error + ArmTranslator" where
  "translate_loop e s =
     (case TranslateSingleArmInstruction e s of
        Inl err \<Rightarrow> Inl err
      | Inr s1 \<Rightarrow>
          (let s2 = s1\<lparr>instructions_translated := instructions_translated s1 + 1\<rparr> in
           if stop_compilation s2 then Inr s2
           else if arm_pc (current s2) AND 0xFFF \<noteq> 0 then Inr s2
           else translate_loop e s2))"
  by pat_completeness auto
termination
proof (relation "measure (\<lambda>(e, s). if arm_pc (current s) AND 0xFFF = 0 then 0 else 1)")
  show "wf (measure (\<lambda>(e, s). if arm_pc (current s) AND 0xFFF = 0 then 0 else (1::nat)))"
    by simp
next
  have page: "(x AND 0xFFF = 0) = (unat x mod 4096 = 0)" for x :: u32
  proof -
    have m: "(0xFFF :: u32) = mask 12" by (simp add: mask_eq_exp_minus_1)
    have "unat (take_bit 12 x) = unat x mod 2 ^ 12"
      unfolding unsigned_take_bit_eq by (rule take_bit_eq_mod)
    then have u: "unat (x AND 0xFFF) = unat x mod 4096"
      by (simp add: m take_bit_eq_mask)
    have "(x AND 0xFFF = 0) = (unat (x AND 0xFFF) = 0)"
      by (simp only: unsigned_eq_0_iff)
    then show ?thesis by (simp only: u)
  qed
  have off: "a mod 4096 \<noteq> 0" if "(a + 4) mod 4096 = 0" for a :: nat
  proof
    assume "a mod 4096 = 0"
    with that have "4096 dvd a + 4" and "4096 dvd a" by (simp_all only: mod_eq_0_iff_dvd)
    then have "(4096::nat) dvd 4" by (simp only: dvd_add_right_iff)
    then show False by simp
  qed
  have before: "x AND 0xFFF \<noteq> 0" if "(x + 4) AND 0xFFF = 0" for x :: u32
  proof -
    have wrap: "unat (x + 4) = (unat x + 4) mod 2 ^ 32"
      by (simp add: unat_word_ariths)
    have cancel: "(unat x + 4) mod 2 ^ 32 mod 4096 = (unat x + 4) mod 4096"
      by (rule mod_mod_cancel) simp
    from that have "(unat x + 4) mod 2 ^ 32 mod 4096 = 0"
      by (simp only: page wrap)
    then have "(unat x + 4) mod 4096 = 0" by (simp only: cancel)
    then have "unat x mod 4096 \<noteq> 0" by (rule off)
    then show ?thesis by (simp add: page)
  qed
  have get: "current s' = current s \<and> stop_compilation s' = stop_compilation s"
    if "GetReg r s = Inr (v, s')" for r s v s'
    using that by (auto simp: GetReg_def Let_def split: if_splits option.splits prod.splits)
  have add: "arm_pc (current s') = arm_pc (current s) + 4"
    if "ADD_imm_handler e c S n d rotate' imm8 s = Inr s'" "\<not> stop_compilation s'"
    for e c S n d rotate' imm8 s s'
    using that
    by (auto simp: ADD_imm_handler_def Let_def advance_pc_def ALUWritePC_def SetReg_def
        ConditionPassed_def
        split: if_splits sum.splits prod.splits bool.splits dest!: get)
  have visit: "arm_pc (current s') = arm_pc (current s) + 4"
    if "Visit e i s = Inr s'" "\<not> stop_compilation s'" for e i s s'
    using that
    by (cases i) (auto simp: FallbackToInterpreter_def B_handler_def Let_def dest: add)
  have single: "arm_pc (current s') = arm_pc (current s) + 4"
    if "TranslateSingleArmInstruction e s = Inr s'" "\<not> stop_compilation s'" for e s s'
    using that
    by (auto simp: TranslateSingleArmInstruction_def Let_def FallbackToInterpreter_def
        split: option.splits dest: visit)
  fix e s s1 s2
  assume a: "TranslateSingleArmInstruction e s = Inr s1"
    and b: "s2 = s1\<lparr>instructions_translated := instructions_translated s1 + 1\<rparr>"
    and c: "\<not> stop_compilation s2"
    and d: "\<not> arm_pc (current s2) AND 0xFFF \<noteq> 0"
  from b c have "\<not> stop_compilation s1" by simp
  with a have "arm_pc (current s1) = arm_pc (current s) + 4"
    by (rule single)
  with b d have "(arm_pc (current s) + 4) AND 0xFFF = 0" by simp
  then have "arm_pc (current s) AND 0xFFF \<noteq> 0" by (rule before)
  with b d show "((e, s2), (e, s)) \<in> measure (\<lambda>(e, s). if arm_pc (current s) AND 0xFFF = 0 then 0 else 1)"
    by simp
qed

text \<open>
  The loop after the main loop, \<^verbatim>\<open>for (size_t i = 0; i < reg_values.size(); i++)\<close>:
  its body is a comment, so every round leaves the translator as it is.
\<close>

definition writeback_loop :: "ArmTranslator \<Rightarrow> ArmTranslator" where
  "writeback_loop s = foldl (\<lambda>s' i. s') s [0..<length (reg_values s)]"

text \<open>
  \<^verbatim>\<open>ArmTranslator::Translate\<close>: the assertion, \<^verbatim>\<open>ir.block.location = current\<close>, the
  main loop, the loop over the register cache, \<^verbatim>\<open>stop_compilation = true\<close>, and
  the block is returned.
\<close>

definition ArmTranslator_Translate :: "env \<Rightarrow> ArmTranslator \<Rightarrow> error + MicroBlock" where
  "ArmTranslator_Translate e s =
     (if stop_compilation s then Inl AssertionFailed
      else
        (let s0 = s\<lparr>ir := (ir s)\<lparr>block := (block (ir s))\<lparr>location := current s\<rparr>\<rparr>\<rparr> in
         case translate_loop e s0 of
           Inl err \<Rightarrow> Inl err
         | Inr s1 \<Rightarrow>
             (let s2 = writeback_loop s1;
                  s3 = s2\<lparr>stop_compilation := True\<rparr>
              in Inr (block (ir s3)))))"

text \<open>The free function \<^verbatim>\<open>Translate(location)\<close>.\<close>

definition Translate :: "env \<Rightarrow> LocationDescriptor \<Rightarrow> error + MicroBlock" where
  "Translate e loc = ArmTranslator_Translate e (ArmTranslator_new loc)"

subsection \<open>Notions used in the statements\<close>

text \<open>The body of the block under construction.\<close>

abbreviation body :: "ArmTranslator \<Rightarrow> MicroValue list" where
  "body s \<equiv> instructions (block (ir s))"

text \<open>
  The nodes that the handlers append to the body: constants, reads of a register
  other than PC, and instructions whose write flags lie within the default write
  flags of their opcode. No handler appends a register store.
\<close>

fun emitted_ok :: "MicroValue \<Rightarrow> bool" where
  "emitted_ok (MicroConstU32 x) = True"
| "emitted_ok (MicroGetGPR r) = (r \<noteq> PC)"
| "emitted_ok (MicroSetGPR r v) = False"
| "emitted_ok (MicroInst op args flags) = (flags AND default_write_flags op = flags)"

text \<open>
  The inputs of the scenarios of section 8 of the specification: a location in
  ARM mode, and guest memory that holds the same word at every address, with a
  decoder that knows this one word. \<^verbatim>\<open>ArmExpandImm\<close> is the ARM immediate
  expansion, the byte rotated right by twice the rotate field.
\<close>

abbreviation arm_loc :: "u32 \<Rightarrow> Cond \<Rightarrow> LocationDescriptor" where
  "arm_loc pc c \<equiv> \<lparr>arm_pc = pc, TFlag = False, EFlag = False, cond = c\<rparr>"

abbreviation uniform_env :: "u32 \<Rightarrow> ArmInst \<Rightarrow> env" where
  "uniform_env w i \<equiv>
     \<lparr>Read32 = (\<lambda>a. w),
      DecodeArm = (\<lambda>x. if x = w then Some i else None),
      ArmExpandImm =
        (\<lambda>imm8 r. drop_bit (nat (2 * r)) (ucast imm8) OR push_bit (32 - nat (2 * r)) (ucast imm8))\<rparr>"

section \<open>Properties of the translator\<close>

subsection \<open>Invariants of the main loop\<close>

text \<open>
  A property that holds before the loop, that every translated instruction keeps
  and that the instruction counter does not touch holds after the loop.
\<close>

lemma translate_loop_invariant:
  assumes "translate_loop e s = Inr s'" and "P s"
    and step: "\<And>e s s1. P s \<Longrightarrow> TranslateSingleArmInstruction e s = Inr s1 \<Longrightarrow> P s1"
    and count: "\<And>s n. P s \<Longrightarrow> P (s\<lparr>instructions_translated := n\<rparr>)"
  shows "P s'"
  using assms(1,2)
proof (induction e s rule: translate_loop.induct)
  case (1 e s)
  from "1.prems"(1) obtain s1 where t: "TranslateSingleArmInstruction e s = Inr s1"
    by (subst (asm) translate_loop.simps) (auto split: sum.splits)
  let ?s2 = "s1\<lparr>instructions_translated := instructions_translated s1 + 1\<rparr>"
  have P2: "P ?s2" using step [OF "1.prems"(2) t] by (rule count)
  show ?case
  proof (cases "stop_compilation ?s2 \<or> arm_pc (current ?s2) AND 0xFFF \<noteq> 0")
    case True
    with "1.prems"(1) t have "s' = ?s2"
      by (subst (asm) translate_loop.simps) (auto simp: Let_def split: if_splits)
    with P2 show ?thesis by simp
  next
    case False
    with "1.prems"(1) t have "translate_loop e ?s2 = Inr s'"
      by (subst (asm) translate_loop.simps) (auto simp: Let_def split: if_splits)
    moreover from False have "\<not> stop_compilation ?s2" "\<not> arm_pc (current ?s2) AND 0xFFF \<noteq> 0"
      by simp_all
    ultimately show ?thesis using "1.IH" [OF t refl] P2 by blast
  qed
qed

lemma unat_reg_less_15: "(r::ArmReg) \<noteq> PC \<Longrightarrow> unat r < 15"
proof -
  assume "r \<noteq> PC"
  have "unat r < 2 ^ 4" using unsigned_less [of r] by simp
  moreover have "unat r \<noteq> 15"
  proof
    assume "unat r = 15"
    then have "r = PC" by (simp add: word_unat_eq_iff)
    with \<open>r \<noteq> PC\<close> show False by simp
  qed
  ultimately show ?thesis by simp
qed

lemma GetReg_length:
  "GetReg r s = Inr (v, s') \<Longrightarrow> length (reg_values s') = length (reg_values s)"
  by (auto simp: GetReg_def Let_def split: if_splits option.splits prod.splits)

lemma GetReg_total:
  "length (reg_values s) = 15 \<Longrightarrow> \<exists>v s'. GetReg r s = Inr (v, s')"
  by (auto simp: GetReg_def Let_def unat_reg_less_15 split: if_splits option.splits prod.splits)

lemma ADD_imm_total:
  assumes "length (reg_values s) = 15"
  shows "\<exists>s'. ADD_imm_handler e c S n d rotate' imm8 s = Inr s' \<and> length (reg_values s') = 15"
proof (cases "c = cond (current s)")
  case False
  then show ?thesis using assms
    by (simp add: ADD_imm_handler_def ConditionPassed_def advance_pc_def)
next
  case True
  from assms obtain Rn s2 where g: "GetReg n s = Inr (Rn, s2)"
    using GetReg_total by blast
  then have l2: "length (reg_values s2) = 15" using assms by (simp add: GetReg_length)
  show ?thesis
  proof (cases "d = PC")
    case True
    with \<open>c = cond (current s)\<close> g l2 show ?thesis
      by (simp add: ADD_imm_handler_def ConditionPassed_def advance_pc_def ALUWritePC_def
          split: prod.splits)
  next
    case False
    with \<open>c = cond (current s)\<close> g l2 show ?thesis
      by (simp add: ADD_imm_handler_def ConditionPassed_def advance_pc_def SetReg_def Let_def
          unat_reg_less_15 split: prod.splits)
  qed
qed

lemma Visit_total:
  assumes "length (reg_values s) = 15"
  shows "\<exists>s'. Visit e i s = Inr s' \<and> length (reg_values s') = 15"
  using assms
  by (cases i) (simp_all add: FallbackToInterpreter_def B_handler_def Let_def ADD_imm_total)

lemma TranslateSingle_total:
  assumes "length (reg_values s) = 15"
  shows "\<exists>s'. TranslateSingleArmInstruction e s = Inr s' \<and> length (reg_values s') = 15"
  using assms
  by (simp add: TranslateSingleArmInstruction_def Let_def FallbackToInterpreter_def Visit_total
      split: option.splits)

lemma translate_loop_total:
  assumes "length (reg_values s) = 15"
  shows "\<exists>s'. translate_loop e s = Inr s'"
  using assms
proof (induction e s rule: translate_loop.induct)
  case (1 e s)
  from TranslateSingle_total [OF "1.prems"] obtain s1
    where t: "TranslateSingleArmInstruction e s = Inr s1" and l: "length (reg_values s1) = 15"
    by blast
  let ?s2 = "s1\<lparr>instructions_translated := instructions_translated s1 + 1\<rparr>"
  show ?case
  proof (cases "stop_compilation ?s2 \<or> arm_pc (current ?s2) AND 0xFFF \<noteq> 0")
    case True
    with t show ?thesis by (subst translate_loop.simps) (auto simp: Let_def)
  next
    case False
    then have "\<not> stop_compilation ?s2" "\<not> arm_pc (current ?s2) AND 0xFFF \<noteq> 0"
      by simp_all
    with "1.IH" [OF t refl] l obtain s' where "translate_loop e ?s2 = Inr s'" by auto
    with t False show ?thesis by (subst translate_loop.simps) (auto simp: Let_def)
  qed
qed

subsection \<open>The nodes of a translated block\<close>

lemma flags_within_Add:
  "MicroArmFlags_NZCV AND default_write_flags OpAdd = MicroArmFlags_NZCV"
  "MicroArmFlags_None AND default_write_flags OpAdd = MicroArmFlags_None"
  by (simp_all add: MicroArmFlags_None_def)

lemma GetReg_emits:
  assumes "GetReg r s = Inr (v, s')"
  shows "\<exists>new. body s' = body s @ new \<and> list_all emitted_ok new
           \<and> terminal (block (ir s')) = terminal (block (ir s))
           \<and> location (block (ir s')) = location (block (ir s))"
  using assms
  by (auto simp: GetReg_def Let_def ConstU32_def GetGPR_def emplace_back_def
      split: if_splits option.splits)

lemma ADD_imm_emits:
  assumes "ADD_imm_handler e c S n d rotate' imm8 s = Inr s'"
  shows "\<exists>new. body s' = body s @ new \<and> list_all emitted_ok new"
proof (cases "c = cond (current s)")
  case False
  with assms show ?thesis
    by (auto simp: ADD_imm_handler_def ConditionPassed_def advance_pc_def SetTerm_def)
next
  case True
  with assms obtain Rn s2 where g: "GetReg n s = Inr (Rn, s2)"
    by (auto simp: ADD_imm_handler_def ConditionPassed_def split: sum.splits)
  from GetReg_emits [OF g] obtain new where n: "body s2 = body s @ new" "list_all emitted_ok new"
    by blast
  from assms True g n show ?thesis
    by (cases S; cases "d = PC")
      (auto simp: ADD_imm_handler_def ConditionPassed_def advance_pc_def SetTerm_def
        ALUWritePC_def SetReg_def Let_def ConstU32_def Inst_def emplace_back_def
        flags_within_Add MicroArmFlags_None_def
        split: if_splits)
qed

lemma Visit_emits:
  assumes "Visit e i s = Inr s'"
  shows "\<exists>new. body s' = body s @ new \<and> list_all emitted_ok new"
  using assms
  by (cases i)
    (auto simp: FallbackToInterpreter_def B_handler_def Let_def SetTerm_def dest: ADD_imm_emits)

lemma TranslateSingle_emits:
  assumes "TranslateSingleArmInstruction e s = Inr s'"
  shows "\<exists>new. body s' = body s @ new \<and> list_all emitted_ok new"
  using assms
  by (auto simp: TranslateSingleArmInstruction_def Let_def FallbackToInterpreter_def SetTerm_def
      split: option.splits dest: Visit_emits)

lemma translate_loop_emits:
  assumes "translate_loop e s = Inr s'" "list_all emitted_ok (body s)"
  shows "list_all emitted_ok (body s')"
  using assms
proof (rule translate_loop_invariant)
  fix e s s1
  assume "list_all emitted_ok (body s)" "TranslateSingleArmInstruction e s = Inr s1"
  then show "list_all emitted_ok (body s1)"
    using TranslateSingle_emits by fastforce
qed simp

lemma GetReg_keeps:
  "GetReg r s = Inr (v, s') \<Longrightarrow>
     terminal (block (ir s')) = terminal (block (ir s))
     \<and> location (block (ir s')) = location (block (ir s))
     \<and> current s' = current s \<and> stop_compilation s' = stop_compilation s"
  by (auto simp: GetReg_def Let_def ConstU32_def GetGPR_def emplace_back_def
      split: if_splits option.splits)

lemma ADD_imm_block:
  assumes "ADD_imm_handler e c S n d rotate' imm8 s = Inr s'"
  shows "location (block (ir s')) = location (block (ir s))
       \<and> (\<not> stop_compilation s' \<longrightarrow>
            \<not> stop_compilation s \<and> terminal (block (ir s')) = terminal (block (ir s)))"
proof (cases "c = cond (current s)")
  case False
  with assms show ?thesis
    by (auto simp: ADD_imm_handler_def ConditionPassed_def advance_pc_def SetTerm_def)
next
  case True
  with assms obtain Rn s2 where g: "GetReg n s = Inr (Rn, s2)"
    by (auto simp: ADD_imm_handler_def ConditionPassed_def split: sum.splits)
  note k = GetReg_keeps [OF g]
  from assms True g k show ?thesis
    by (cases "d = PC")
      (auto simp: ADD_imm_handler_def ConditionPassed_def advance_pc_def SetTerm_def
        ALUWritePC_def SetReg_def Let_def ConstU32_def Inst_def emplace_back_def
        split: if_splits)
qed

lemma Visit_block:
  assumes "Visit e i s = Inr s'"
  shows "location (block (ir s')) = location (block (ir s))
       \<and> (\<not> stop_compilation s' \<longrightarrow>
            \<not> stop_compilation s \<and> terminal (block (ir s')) = terminal (block (ir s)))"
  using assms
  by (cases i)
    (auto simp: FallbackToInterpreter_def B_handler_def Let_def SetTerm_def dest: ADD_imm_block)

lemma TranslateSingle_block:
  assumes "TranslateSingleArmInstruction e s = Inr s'"
  shows "location (block (ir s')) = location (block (ir s))
       \<and> (\<not> stop_compilation s' \<longrightarrow>
            \<not> stop_compilation s \<and> terminal (block (ir s')) = terminal (block (ir s)))"
  using assms
  by (auto simp: TranslateSingleArmInstruction_def Let_def FallbackToInterpreter_def SetTerm_def
      split: option.splits dest: Visit_block)

lemma translate_loop_running_terminal:
  assumes "translate_loop e s = Inr s'"
    and "\<not> stop_compilation s \<longrightarrow> terminal (block (ir s)) = t"
  shows "\<not> stop_compilation s' \<longrightarrow> terminal (block (ir s')) = t"
  using assms
proof (rule translate_loop_invariant)
  fix e s s1
  assume "\<not> stop_compilation s \<longrightarrow> terminal (block (ir s)) = t"
    "TranslateSingleArmInstruction e s = Inr s1"
  then show "\<not> stop_compilation s1 \<longrightarrow> terminal (block (ir s1)) = t"
    using TranslateSingle_block by fastforce
qed simp

lemma translate_loop_location:
  assumes "translate_loop e s = Inr s'" and "location (block (ir s)) = l"
  shows "location (block (ir s')) = l"
  using assms
proof (rule translate_loop_invariant)
  fix e s s1
  assume "location (block (ir s)) = l" "TranslateSingleArmInstruction e s = Inr s1"
  then show "location (block (ir s1)) = l"
    using TranslateSingle_block by fastforce
qed simp

lemma translate_loop_stop:
  assumes "TranslateSingleArmInstruction e s = Inr s1" "stop_compilation s1"
  shows "translate_loop e s = Inr (s1\<lparr>instructions_translated := instructions_translated s1 + 1\<rparr>)"
  using assms by (subst translate_loop.simps) (simp add: Let_def)

lemma writeback_loop_id: "writeback_loop s = s"
proof -
  have "foldl (\<lambda>s' i. s') s xs = s" for xs :: "nat list"
    by (induction xs) simp_all
  then show ?thesis by (simp add: writeback_loop_def)
qed

lemma Translate_eq_loop:
  "Translate e loc =
     (case translate_loop e (ArmTranslator_new loc) of
        Inl err \<Rightarrow> Inl err
      | Inr s1 \<Rightarrow> Inr (block (ir s1)))"
proof -
  have "(ArmTranslator_new loc)\<lparr>ir := (ir (ArmTranslator_new loc))
          \<lparr>block := (block (ir (ArmTranslator_new loc)))
             \<lparr>location := current (ArmTranslator_new loc)\<rparr>\<rparr>\<rparr> = ArmTranslator_new loc"
    by (simp add: ArmTranslator_new_def MicroBuilder_new_def MicroBlock_new_def)
  then show ?thesis
    by (simp add: Translate_def ArmTranslator_Translate_def Let_def writeback_loop_id
        ArmTranslator_new_def split: sum.splits)
qed

lemma Translate_total:
  "\<exists>s'. translate_loop e (ArmTranslator_new loc) = Inr s' \<and> Translate e loc = Inr (block (ir s'))"
proof -
  have "length (reg_values (ArmTranslator_new loc)) = 15"
    by (simp add: ArmTranslator_new_def)
  then obtain s' where "translate_loop e (ArmTranslator_new loc) = Inr s'"
    using translate_loop_total by blast
  then show ?thesis by (simp add: Translate_eq_loop)
qed

subsection \<open>Whole translations\<close>

lemmas translator_defs =
  TranslateSingleArmInstruction_def ADD_imm_handler_def ConditionPassed_def GetReg_def SetReg_def
  ALUWritePC_def B_handler_def FallbackToInterpreter_def advance_pc_def
  ConstU32_def GetGPR_def Inst_def SetTerm_def emplace_back_def TermInterpret_def TermLinkBlock_def
  ArmTranslator_new_def MicroBuilder_new_def MicroBlock_new_def MicroTerminal_default_def Let_def

lemma translate_loop_length:
  assumes "translate_loop e s = Inr s'" "length (reg_values s) = 15"
  shows "length (reg_values s') = 15"
  using assms
proof (rule translate_loop_invariant)
  fix e s s1
  assume "length (reg_values s) = 15" "TranslateSingleArmInstruction e s = Inr s1"
  then show "length (reg_values s1) = 15"
    using TranslateSingle_total [of s e] by auto
qed simp

lemma Translate_nodes:
  assumes "Translate e loc = Inr blk"
  shows "list_all emitted_ok (instructions blk)"
proof -
  from Translate_total [of e loc] assms obtain s'
    where l: "translate_loop e (ArmTranslator_new loc) = Inr s'" and b: "blk = block (ir s')"
    by auto
  have "list_all emitted_ok (body (ArmTranslator_new loc))"
    by (simp add: ArmTranslator_new_def MicroBuilder_new_def MicroBlock_new_def)
  with l have "list_all emitted_ok (body s')" by (rule translate_loop_emits)
  with b show ?thesis by simp
qed

lemma ADD_imm_Add_node:
  assumes "c = cond (current s)" and "GetReg n s = Inr (Rn, s2)"
    and "ADD_imm_handler e c S n d rotate' imm8 s = Inr s'"
  shows "MicroInst OpAdd [Rn, length (body s2)]
           (if S then MicroArmFlags_NZCV else MicroArmFlags_None) \<in> set (body s')"
  using assms
  by (cases "d = PC")
    (auto simp: ADD_imm_handler_def ConditionPassed_def advance_pc_def SetTerm_def
      ALUWritePC_def SetReg_def Let_def ConstU32_def Inst_def emplace_back_def
      split: if_splits)

lemma location_with_cond:
  "\<lparr>arm_pc = arm_pc l, TFlag = TFlag l, EFlag = EFlag l, cond = c\<rparr> = l\<lparr>cond := c\<rparr>"
  by (cases l) simp

lemma translate_loop_leaves:
  assumes "translate_loop e s = Inr s'"
  shows "stop_compilation s' \<or> arm_pc (current s') AND 0xFFF \<noteq> 0"
  using assms
proof (induction e s rule: translate_loop.induct)
  case (1 e s)
  from "1.prems" obtain s1 where t: "TranslateSingleArmInstruction e s = Inr s1"
    by (subst (asm) translate_loop.simps) (auto split: sum.splits)
  let ?s2 = "s1\<lparr>instructions_translated := instructions_translated s1 + 1\<rparr>"
  show ?case
  proof (cases "stop_compilation ?s2 \<or> arm_pc (current ?s2) AND 0xFFF \<noteq> 0")
    case True
    with "1.prems" t have "s' = ?s2"
      by (subst (asm) translate_loop.simps) (auto simp: Let_def split: if_splits)
    with True show ?thesis by simp
  next
    case False
    with "1.prems" t have "translate_loop e ?s2 = Inr s'"
      by (subst (asm) translate_loop.simps) (auto simp: Let_def split: if_splits)
    moreover from False have "\<not> stop_compilation ?s2" "\<not> arm_pc (current ?s2) AND 0xFFF \<noteq> 0"
      by simp_all
    ultimately show ?thesis using "1.IH" [OF t refl] by blast
  qed
qed

lemma Translate_no_SetGPR:
  assumes "Translate e loc = Inr blk"
  shows "MicroSetGPR r v \<notin> set (instructions blk)"
proof -
  from assms have "list_all emitted_ok (instructions blk)" by (rule Translate_nodes)
  then show ?thesis by (auto simp: list_all_iff)
qed

text \<open>
  The target that \<^verbatim>\<open>B\<close> computes, \<^verbatim>\<open>arm_pc + imm24\<close>, is for no \<^verbatim>\<open>imm24\<close> the
  target of the ARM branch, \<^verbatim>\<open>arm_pc + 8 + (SignExtend(imm24) << 2)\<close>.
\<close>

lemma B_target_differs:
  fixes pc :: u32 and imm24 :: ArmImm24
  shows "pc + ucast imm24 \<noteq> pc + 8 + push_bit 2 (scast imm24)"
proof
  let ?u = "uint imm24" and ?s = "sint imm24"
  assume "pc + ucast imm24 = pc + 8 + push_bit 2 (scast imm24)"
  then have "(ucast imm24 :: u32) = 8 + push_bit 2 (scast imm24)"
    by (simp add: add.assoc)
  then have c: "(ucast imm24 :: u32) = 8 + 4 * scast imm24"
    by (simp add: push_bit_eq_mult mult.commute)
  have "(word_of_int ?u :: u32) = ucast imm24" by (simp only: ucast_eq)
  also note c
  also have "8 + 4 * scast imm24 = (word_of_int (8 + 4 * ?s) :: u32)"
  proof -
    have "(word_of_int (8 + 4 * ?s) :: u32) = word_of_int 8 + word_of_int 4 * word_of_int ?s"
      by (simp only: wi_hom_add wi_hom_mult)
    moreover have "(word_of_int 8 :: u32) = 8" "(word_of_int 4 :: u32) = 4" by simp_all
    ultimately show ?thesis by (simp only: scast_eq)
  qed
  finally have h: "(word_of_int ?u :: u32) = word_of_int (8 + 4 * ?s)" .
  have "take_bit 32 ?u = take_bit 32 (8 + 4 * ?s)"
    using h unfolding word_of_int_eq_iff by simp
  then have m: "?u mod 4294967296 = (8 + 4 * ?s) mod 4294967296"
    by (simp add: take_bit_eq_mod)
  have u0: "0 \<le> ?u" by simp
  have u1: "?u < 16777216" using uint_bounded [of imm24] by simp
  have s0: "- 8388608 \<le> ?s" using sint_ge [of imm24] by simp
  have s1: "?s < 8388608" using sint_lt [of imm24] by simp
  have us: "?u = ?s mod 16777216" using uint_sint [of imm24] by (simp add: take_bit_eq_mod)
  from u0 u1 have l: "?u mod 4294967296 = ?u" by simp
  show False
  proof (cases "0 \<le> ?s")
    case True
    with s1 us have "?u = ?s" by simp
    moreover from True s1 have "(8 + 4 * ?s) mod 4294967296 = 8 + 4 * ?s" by simp
    ultimately show False using m l True by simp
  next
    case False
    have "?s mod 16777216 = (?s + 16777216) mod 16777216" by (simp only: mod_add_self2)
    also have "\<dots> = ?s + 16777216"
      using False s0 by (intro mod_pos_pos_trivial) simp_all
    finally have e: "?u = ?s + 16777216" using us by simp
    show False
    proof (cases "0 \<le> 8 + 4 * ?s")
      case True
      then have "(8 + 4 * ?s) mod 4294967296 = 8 + 4 * ?s" using False by simp
      with m l e show False using False s0 by simp
    next
      case n: False
      have "(8 + 4 * ?s) mod 4294967296 = (8 + 4 * ?s + 4294967296) mod 4294967296"
        by (simp only: mod_add_self2)
      also have "\<dots> = 8 + 4 * ?s + 4294967296"
        using n s0 by (intro mod_pos_pos_trivial) simp_all
      finally have "(8 + 4 * ?s) mod 4294967296 = 8 + 4 * ?s + 4294967296" .
      with m l e show False using s0 s1 by simp
    qed
  qed
qed

text \<open>
  \<^verbatim>\<open>ArmTranslator::B\<close> never reads its condition (its first line is the comment
  \<^verbatim>\<open>TODO: Handle cond, dude.\<close>): the terminal links to the new address under the
  static condition of the block, whatever the condition of the instruction.
  \<^verbatim>\<open>B\<close> with the condition NE and the field 8 in a block entered under EQ at
  0x1000 ends the block with \<^verbatim>\<open>LinkBlock\<close> of 0x1008 under EQ.
\<close>

lemma B_ignores_cond:
  "Visit e (B c imm24) s =
     Inr (s\<lparr>ir := SetTerm (LinkBlock ((current s)\<lparr>arm_pc := arm_pc (current s) + ucast imm24\<rparr>))
                    (ir s),
            stop_compilation := True\<rparr>)
   \<and> Translate (uniform_env 0x1A000008 (B NE 8)) (arm_loc 0x1000 EQ) =
       Inr \<lparr>location = arm_loc 0x1000 EQ, instructions = [],
            terminal = LinkBlock (arm_loc 0x1008 EQ)\<rparr>"
proof -
  have a: "Visit e (B c imm24) s =
     Inr (s\<lparr>ir := SetTerm (LinkBlock ((current s)\<lparr>arm_pc := arm_pc (current s) + ucast imm24\<rparr>))
                    (ir s),
            stop_compilation := True\<rparr>)"
    by (simp add: B_handler_def TermLinkBlock_def Let_def)
  have b: "Translate (uniform_env 0x1A000008 (B NE 8)) (arm_loc 0x1000 EQ) =
       Inr \<lparr>location = arm_loc 0x1000 EQ, instructions = [],
            terminal = LinkBlock (arm_loc 0x1008 EQ)\<rparr>"
    by (simp add: Translate_eq_loop translate_loop.simps translator_defs)
  from a b show ?thesis by (rule conjI)
qed

section \<open>The claims\<close>

text \<open>
  C1, what the code does. The loop leaves when \<^verbatim>\<open>(current.arm_pc & 0xFFF) != 0\<close>
  and sets no terminal when it leaves: every translation ends either with the
  stop flag set by a handler, or off a page boundary with the terminal
  \<^verbatim>\<open>ReturnToDispatch\<close>. With \<^verbatim>\<open>ADD r1, r2, #5\<close> at every address: from 0x1000
  one instruction is translated and the loop ends at 0x1004 with the stop flag
  clear and the terminal \<^verbatim>\<open>ReturnToDispatch\<close>; from 0xFFC the loop goes on
  across the page boundary 0x1000, translates a second instruction and ends at
  0x1004, again with the terminal \<^verbatim>\<open>ReturnToDispatch\<close>.
\<close>

theorem page_check_inverted:
  "(\<exists>s'. translate_loop e (ArmTranslator_new loc) = Inr s'
         \<and> (stop_compilation s'
             \<or> arm_pc (current s') AND 0xFFF \<noteq> 0
               \<and> terminal (block (ir s')) = ReturnToDispatch))
   \<and> (case translate_loop (uniform_env 0xE2821005 (ADD_imm AL False 2 1 0 5))
           (ArmTranslator_new (arm_loc 0x1000 AL)) of
      Inl err \<Rightarrow> False
    | Inr s' \<Rightarrow>
        instructions_translated s' = 1 \<and> \<not> stop_compilation s'
        \<and> arm_pc (current s') = 0x1004 \<and> arm_pc (current s') AND 0xFFF \<noteq> 0
        \<and> terminal (block (ir s')) = ReturnToDispatch)
   \<and> (case translate_loop (uniform_env 0xE2821005 (ADD_imm AL False 2 1 0 5))
           (ArmTranslator_new (arm_loc 0xFFC AL)) of
      Inl err \<Rightarrow> False
    | Inr s' \<Rightarrow>
        instructions_translated s' = 2 \<and> \<not> stop_compilation s'
        \<and> arm_pc (current s') = 0x1004
        \<and> terminal (block (ir s')) = ReturnToDispatch)
   \<and> Translate (uniform_env 0xE2821005 (ADD_imm AL False 2 1 0 5)) (arm_loc 0xFFC AL) =
       Inr \<lparr>location = arm_loc 0xFFC AL,
            instructions =
              [MicroGetGPR 2, MicroConstU32 5, MicroInst OpAdd [0, 1] MicroArmFlags_None,
               MicroConstU32 5, MicroInst OpAdd [0, 3] MicroArmFlags_None],
            terminal = ReturnToDispatch\<rparr>"
proof -
  obtain s' where l: "translate_loop e (ArmTranslator_new loc) = Inr s'"
    using Translate_total [of e loc] by blast
  have "\<not> stop_compilation (ArmTranslator_new loc) \<longrightarrow>
          terminal (block (ir (ArmTranslator_new loc))) = ReturnToDispatch"
    by (simp add: ArmTranslator_new_def MicroBuilder_new_def MicroBlock_new_def
        MicroTerminal_default_def)
  with l have "\<not> stop_compilation s' \<longrightarrow> terminal (block (ir s')) = ReturnToDispatch"
    by (rule translate_loop_running_terminal)
  with l translate_loop_leaves [OF l]
  have g: "\<exists>s'. translate_loop e (ArmTranslator_new loc) = Inr s'
         \<and> (stop_compilation s'
             \<or> arm_pc (current s') AND 0xFFF \<noteq> 0
               \<and> terminal (block (ir s')) = ReturnToDispatch)"
    by blast
  have c: "(case translate_loop (uniform_env 0xE2821005 (ADD_imm AL False 2 1 0 5))
           (ArmTranslator_new (arm_loc 0x1000 AL)) of
      Inl err \<Rightarrow> False
    | Inr s' \<Rightarrow>
        instructions_translated s' = 1 \<and> \<not> stop_compilation s'
        \<and> arm_pc (current s') = 0x1004 \<and> arm_pc (current s') AND 0xFFF \<noteq> 0
        \<and> terminal (block (ir s')) = ReturnToDispatch)
   \<and> (case translate_loop (uniform_env 0xE2821005 (ADD_imm AL False 2 1 0 5))
           (ArmTranslator_new (arm_loc 0xFFC AL)) of
      Inl err \<Rightarrow> False
    | Inr s' \<Rightarrow>
        instructions_translated s' = 2 \<and> \<not> stop_compilation s'
        \<and> arm_pc (current s') = 0x1004
        \<and> terminal (block (ir s')) = ReturnToDispatch)
   \<and> Translate (uniform_env 0xE2821005 (ADD_imm AL False 2 1 0 5)) (arm_loc 0xFFC AL) =
       Inr \<lparr>location = arm_loc 0xFFC AL,
            instructions =
              [MicroGetGPR 2, MicroConstU32 5, MicroInst OpAdd [0, 1] MicroArmFlags_None,
               MicroConstU32 5, MicroInst OpAdd [0, 3] MicroArmFlags_None],
            terminal = ReturnToDispatch\<rparr>"
    by (simp add: Translate_eq_loop translate_loop.simps translator_defs)
  from g c show ?thesis by (rule conjI)
qed

text \<open>
  C2, what the code does. No translation returns a body with a \<^verbatim>\<open>SetGPR\<close> node.
  After \<^verbatim>\<open>ADD r1, r2, #5\<close> at 0x1000 the cache holds for r1 the \<^verbatim>\<open>Add\<close> node
  (node 2), which is not a \<^verbatim>\<open>GetGPR\<close> of r1, and the returned body ends with
  the \<^verbatim>\<open>Add\<close> node: it holds no \<^verbatim>\<open>SetGPR(r1, _)\<close>.
\<close>

theorem writeback_missing:
  "(\<exists>blk. Translate e loc = Inr blk \<and> MicroSetGPR r v \<notin> set (instructions blk))
   \<and> (case translate_loop (uniform_env 0xE2821005 (ADD_imm AL False 2 1 0 5))
           (ArmTranslator_new (arm_loc 0x1000 AL)) of
      Inl err \<Rightarrow> False
    | Inr s' \<Rightarrow>
        reg_values s' ! 2 = Some 0 \<and> reg_values s' ! 1 = Some 2
        \<and> body s' = [MicroGetGPR 2, MicroConstU32 5, MicroInst OpAdd [0, 1] MicroArmFlags_None])
   \<and> Translate (uniform_env 0xE2821005 (ADD_imm AL False 2 1 0 5)) (arm_loc 0x1000 AL) =
       Inr \<lparr>location = arm_loc 0x1000 AL,
            instructions =
              [MicroGetGPR 2, MicroConstU32 5, MicroInst OpAdd [0, 1] MicroArmFlags_None],
            terminal = ReturnToDispatch\<rparr>
   \<and> MicroSetGPR 1 2 \<notin>
       set [MicroGetGPR 2, MicroConstU32 5, MicroInst OpAdd [0, 1] MicroArmFlags_None]"
proof -
  obtain blk where b: "Translate e loc = Inr blk"
    using Translate_total [of e loc] by blast
  then have "MicroSetGPR r v \<notin> set (instructions blk)" by (rule Translate_no_SetGPR)
  with b have g: "\<exists>blk. Translate e loc = Inr blk \<and> MicroSetGPR r v \<notin> set (instructions blk)"
    by blast
  have c: "(case translate_loop (uniform_env 0xE2821005 (ADD_imm AL False 2 1 0 5))
           (ArmTranslator_new (arm_loc 0x1000 AL)) of
      Inl err \<Rightarrow> False
    | Inr s' \<Rightarrow>
        reg_values s' ! 2 = Some 0 \<and> reg_values s' ! 1 = Some 2
        \<and> body s' = [MicroGetGPR 2, MicroConstU32 5, MicroInst OpAdd [0, 1] MicroArmFlags_None])
   \<and> Translate (uniform_env 0xE2821005 (ADD_imm AL False 2 1 0 5)) (arm_loc 0x1000 AL) =
       Inr \<lparr>location = arm_loc 0x1000 AL,
            instructions =
              [MicroGetGPR 2, MicroConstU32 5, MicroInst OpAdd [0, 1] MicroArmFlags_None],
            terminal = ReturnToDispatch\<rparr>
   \<and> MicroSetGPR 1 2 \<notin>
       set [MicroGetGPR 2, MicroConstU32 5, MicroInst OpAdd [0, 1] MicroArmFlags_None]"
    by (simp add: Translate_eq_loop translate_loop.simps translator_defs)
  from g c show ?thesis by (rule conjI)
qed

text \<open>
  C3, as the code has it. The claim fails for a handler that falls back to the
  interpreter: \<^verbatim>\<open>BL\<close> with the condition NE in a block entered under EQ ends
  the block with \<^verbatim>\<open>Interpret\<close> of the current location, not with \<^verbatim>\<open>LinkBlock\<close>
  of the location under NE.
\<close>

theorem BL_condition_mismatch_counterexample:
  "Translate (uniform_env 0x1B000000 (BL NE 0)) (arm_loc 0x1000 EQ) =
     Inr \<lparr>location = arm_loc 0x1000 EQ, instructions = [],
          terminal = Interpret (arm_loc 0x1000 EQ)\<rparr>
   \<and> \<not> (\<exists>blk. Translate (uniform_env 0x1B000000 (BL NE 0)) (arm_loc 0x1000 EQ) = Inr blk
             \<and> terminal blk = LinkBlock (arm_loc 0x1000 NE))"
proof -
  have "Translate (uniform_env 0x1B000000 (BL NE 0)) (arm_loc 0x1000 EQ) =
     Inr \<lparr>location = arm_loc 0x1000 EQ, instructions = [],
          terminal = Interpret (arm_loc 0x1000 EQ)\<rparr>"
    by (simp add: Translate_eq_loop translate_loop.simps translator_defs)
  then show ?thesis by simp
qed

text \<open>
  C3, amended. A guest instruction whose handler calls \<^verbatim>\<open>ConditionPassed\<close>
  (\<^verbatim>\<open>ADD_imm\<close>) and whose condition code differs from the static condition of
  the block appends no node, sets the terminal to \<^verbatim>\<open>LinkBlock\<close> of the current
  location with the condition replaced by the instruction's, and sets the stop
  flag; at the first instruction of a translation the returned block has an
  empty body and this terminal. A handler that is not implemented (\<^verbatim>\<open>BL\<close>,
  \<^verbatim>\<open>BLX_imm\<close>, \<^verbatim>\<open>BLX_reg\<close>, \<^verbatim>\<open>BX\<close>, \<^verbatim>\<open>BXJ\<close> and the remaining callbacks)
  falls back to the interpreter whatever its condition code \<open>c'\<close>, equal to the
  static condition or not: it appends no node, sets the terminal to
  \<^verbatim>\<open>Interpret\<close> of the current location and sets the stop flag; at the first
  instruction of a translation the returned block has an empty body and the
  terminal \<^verbatim>\<open>Interpret\<close> of the entry location.
\<close>

theorem ConditionPassed_mismatch:
  "(c \<noteq> cond (current s) \<longrightarrow>
      Visit e (ADD_imm c S n d rotate' imm8) s =
        Inr (s\<lparr>ir := SetTerm (LinkBlock ((current s)\<lparr>cond := c\<rparr>)) (ir s),
               stop_compilation := True,
               current := (current s)\<lparr>arm_pc := arm_pc (current s) + 4\<rparr>\<rparr>)
      \<and> body (s\<lparr>ir := SetTerm (LinkBlock ((current s)\<lparr>cond := c\<rparr>)) (ir s)\<rparr>) = body s)
   \<and> (DecodeArm e (Read32 e (arm_pc loc AND 0xFFFFFFFC)) = Some (ADD_imm c S n d rotate' imm8)
        \<and> c \<noteq> cond loc \<longrightarrow>
      Translate e loc =
        Inr \<lparr>location = loc, instructions = [], terminal = LinkBlock (loc\<lparr>cond := c\<rparr>)\<rparr>)
   \<and> Visit e (BL c' imm24) s = Inr (FallbackToInterpreter s)
   \<and> Visit e (BLX_imm H imm24) s = Inr (FallbackToInterpreter s)
   \<and> Visit e (BLX_reg c' Rm) s = Inr (FallbackToInterpreter s)
   \<and> Visit e (BX c' Rm) s = Inr (FallbackToInterpreter s)
   \<and> Visit e (BXJ c' Rm) s = Inr (FallbackToInterpreter s)
   \<and> Visit e (Unimplemented oc) s = Inr (FallbackToInterpreter s)
   \<and> terminal (block (ir (FallbackToInterpreter s))) = Interpret (current s)
   \<and> stop_compilation (FallbackToInterpreter s)
   \<and> body (FallbackToInterpreter s) = body s
   \<and> (DecodeArm e (Read32 e (arm_pc loc AND 0xFFFFFFFC)) = Some i
        \<and> i \<in> {BL c' imm24, BLX_imm H imm24, BLX_reg c' Rm, BX c' Rm, BXJ c' Rm,
                 Unimplemented oc} \<longrightarrow>
      Translate e loc = Inr \<lparr>location = loc, instructions = [], terminal = Interpret loc\<rparr>)"
proof -
  have a: "Visit e (ADD_imm c S n d rotate' imm8) s =
           Inr (s\<lparr>ir := SetTerm (LinkBlock ((current s)\<lparr>cond := c\<rparr>)) (ir s),
                  stop_compilation := True,
                  current := (current s)\<lparr>arm_pc := arm_pc (current s) + 4\<rparr>\<rparr>)"
    if "c \<noteq> cond (current s)"
    using that
    by (simp add: ADD_imm_handler_def ConditionPassed_def advance_pc_def TermLinkBlock_def
        location_with_cond)
  have b: "Translate e loc =
            Inr \<lparr>location = loc, instructions = [], terminal = LinkBlock (loc\<lparr>cond := c\<rparr>)\<rparr>"
    if d: "DecodeArm e (Read32 e (arm_pc loc AND 0xFFFFFFFC)) = Some (ADD_imm c S n d rotate' imm8)"
      and m: "c \<noteq> cond loc"
  proof -
    let ?s0 = "ArmTranslator_new loc"
    let ?s1 = "?s0\<lparr>ir := SetTerm (LinkBlock (loc\<lparr>cond := c\<rparr>)) (ir ?s0),
                  stop_compilation := True,
                  current := loc\<lparr>arm_pc := arm_pc loc + 4\<rparr>\<rparr>"
    from d m have t: "TranslateSingleArmInstruction e ?s0 = Inr ?s1"
      by (simp add: translator_defs location_with_cond)
    have "stop_compilation ?s1" by simp
    with t have "translate_loop e ?s0 =
        Inr (?s1\<lparr>instructions_translated := instructions_translated ?s1 + 1\<rparr>)"
      by (rule translate_loop_stop)
    then show ?thesis by (simp add: Translate_eq_loop translator_defs)
  qed
  have f: "Translate e loc = Inr \<lparr>location = loc, instructions = [], terminal = Interpret loc\<rparr>"
    if d: "DecodeArm e (Read32 e (arm_pc loc AND 0xFFFFFFFC)) = Some i"
      and v: "Visit e i (ArmTranslator_new loc) = Inr (FallbackToInterpreter (ArmTranslator_new loc))"
    for i
  proof -
    let ?s0 = "ArmTranslator_new loc"
    let ?s1 = "FallbackToInterpreter ?s0"
    have "current ?s0 = loc" by (simp add: ArmTranslator_new_def)
    with d v have t: "TranslateSingleArmInstruction e ?s0 = Inr ?s1"
      by (simp add: TranslateSingleArmInstruction_def)
    have "stop_compilation ?s1" by (simp add: FallbackToInterpreter_def)
    with t have "translate_loop e ?s0 =
        Inr (?s1\<lparr>instructions_translated := instructions_translated ?s1 + 1\<rparr>)"
      by (rule translate_loop_stop)
    then show ?thesis by (simp add: Translate_eq_loop translator_defs)
  qed
  have g: "Translate e loc = Inr \<lparr>location = loc, instructions = [], terminal = Interpret loc\<rparr>"
    if "DecodeArm e (Read32 e (arm_pc loc AND 0xFFFFFFFC)) = Some i"
      and "i \<in> {BL c' imm24, BLX_imm H imm24, BLX_reg c' Rm, BX c' Rm, BXJ c' Rm, Unimplemented oc}"
    using that by (auto intro: f)
  from a b g show ?thesis
    by (simp add: FallbackToInterpreter_def SetTerm_def TermInterpret_def)
qed

theorem ConditionPassed_mismatch_witness:
  "NE \<noteq> cond (current (ArmTranslator_new (arm_loc 0x1000 EQ)))
   \<and> DecodeArm (uniform_env 0x12821005 (ADD_imm NE False 2 1 0 5))
        (Read32 (uniform_env 0x12821005 (ADD_imm NE False 2 1 0 5))
           (arm_pc (arm_loc 0x1000 EQ) AND 0xFFFFFFFC)) = Some (ADD_imm NE False 2 1 0 5)
   \<and> NE \<noteq> cond (arm_loc 0x1000 EQ)
   \<and> Visit (uniform_env 0x12821005 (ADD_imm NE False 2 1 0 5)) (ADD_imm NE False 2 1 0 5)
        (ArmTranslator_new (arm_loc 0x1000 EQ)) =
       Inr ((ArmTranslator_new (arm_loc 0x1000 EQ))
              \<lparr>ir := SetTerm (LinkBlock (arm_loc 0x1000 NE)) (MicroBuilder_new (arm_loc 0x1000 EQ)),
               stop_compilation := True, current := arm_loc 0x1004 EQ\<rparr>)
   \<and> Translate (uniform_env 0x12821005 (ADD_imm NE False 2 1 0 5)) (arm_loc 0x1000 EQ) =
       Inr \<lparr>location = arm_loc 0x1000 EQ, instructions = [],
            terminal = LinkBlock (arm_loc 0x1000 NE)\<rparr>
   \<and> DecodeArm (uniform_env 0x0B000000 (BL EQ 0))
        (Read32 (uniform_env 0x0B000000 (BL EQ 0))
           (arm_pc (arm_loc 0x1000 EQ) AND 0xFFFFFFFC)) = Some (BL EQ 0)
   \<and> BL EQ 0 \<in> {BL EQ 0, BLX_imm False 0, BLX_reg EQ 3, BX EQ 3, BXJ EQ 3, Unimplemented (Some EQ)}
   \<and> Translate (uniform_env 0x0B000000 (BL EQ 0)) (arm_loc 0x1000 EQ) =
       Inr \<lparr>location = arm_loc 0x1000 EQ, instructions = [],
            terminal = Interpret (arm_loc 0x1000 EQ)\<rparr>"
proof -
  have h: "NE \<noteq> cond (current (ArmTranslator_new (arm_loc 0x1000 EQ)))"
    by (simp add: ArmTranslator_new_def)
  from ConditionPassed_mismatch [of NE "ArmTranslator_new (arm_loc 0x1000 EQ)"
      "uniform_env 0x12821005 (ADD_imm NE False 2 1 0 5)" False 2 1 0 5 "arm_loc 0x1000 EQ"]
    ConditionPassed_mismatch [of _ _ "uniform_env 0x0B000000 (BL EQ 0)" _ _ _ _ _
      "arm_loc 0x1000 EQ" EQ 0 False 3 "Some EQ" "BL EQ 0"] h
  show ?thesis by (simp add: ArmTranslator_new_def)
qed

text \<open>
  C4. \<^verbatim>\<open>Translate\<close> returns a block for every location, whatever memory and
  decoder answer, and the block carries the location it was asked for. When the
  decoder has no match for the fetched word, the single instruction step sets
  the terminal to \<^verbatim>\<open>Interpret\<close> of the current location and sets the stop
  flag; when this happens at the first instruction, the returned block has an
  empty body and the terminal \<^verbatim>\<open>Interpret\<close> of the entry location.
\<close>

theorem Translate_never_fails:
  "(\<exists>blk. Translate e loc = Inr blk \<and> location blk = loc)
   \<and> (DecodeArm e (Read32 e (arm_pc (current s) AND 0xFFFFFFFC)) = None \<longrightarrow>
        TranslateSingleArmInstruction e s =
          Inr (s\<lparr>ir := SetTerm (Interpret (current s)) (ir s), stop_compilation := True\<rparr>))
   \<and> (DecodeArm e (Read32 e (arm_pc loc AND 0xFFFFFFFC)) = None \<longrightarrow>
        Translate e loc = Inr \<lparr>location = loc, instructions = [], terminal = Interpret loc\<rparr>)"
proof (intro conjI impI)
  obtain s' where l: "translate_loop e (ArmTranslator_new loc) = Inr s'"
    and b: "Translate e loc = Inr (block (ir s'))"
    using Translate_total [of e loc] by blast
  have "location (block (ir (ArmTranslator_new loc))) = loc"
    by (simp add: ArmTranslator_new_def MicroBuilder_new_def MicroBlock_new_def)
  with l have "location (block (ir s')) = loc" by (rule translate_loop_location)
  with b show "\<exists>blk. Translate e loc = Inr blk \<and> location blk = loc" by simp
next
  assume "DecodeArm e (Read32 e (arm_pc (current s) AND 0xFFFFFFFC)) = None"
  then show "TranslateSingleArmInstruction e s =
      Inr (s\<lparr>ir := SetTerm (Interpret (current s)) (ir s), stop_compilation := True\<rparr>)"
    by (simp add: TranslateSingleArmInstruction_def FallbackToInterpreter_def TermInterpret_def)
next
  let ?s0 = "ArmTranslator_new loc"
  assume "DecodeArm e (Read32 e (arm_pc loc AND 0xFFFFFFFC)) = None"
  then have t: "TranslateSingleArmInstruction e ?s0 = Inr (FallbackToInterpreter ?s0)"
    by (simp add: TranslateSingleArmInstruction_def ArmTranslator_new_def)
  have "stop_compilation (FallbackToInterpreter ?s0)"
    by (simp add: FallbackToInterpreter_def)
  with t have "translate_loop e ?s0 =
      Inr ((FallbackToInterpreter ?s0)\<lparr>instructions_translated :=
             instructions_translated (FallbackToInterpreter ?s0) + 1\<rparr>)"
    by (rule translate_loop_stop)
  then show "Translate e loc = Inr \<lparr>location = loc, instructions = [], terminal = Interpret loc\<rparr>"
    by (simp add: Translate_eq_loop translator_defs)
qed

theorem Translate_never_fails_witness:
  "DecodeArm \<lparr>Read32 = (\<lambda>a. 0xFFFFFFFF), DecodeArm = (\<lambda>x. None), ArmExpandImm = (\<lambda>imm8 r. ucast imm8)\<rparr>
     (Read32 \<lparr>Read32 = (\<lambda>a. 0xFFFFFFFF), DecodeArm = (\<lambda>x. None), ArmExpandImm = (\<lambda>imm8 r. ucast imm8)\<rparr>
        (arm_pc (arm_loc 0x1000 AL) AND 0xFFFFFFFC)) = None
   \<and> TranslateSingleArmInstruction
        \<lparr>Read32 = (\<lambda>a. 0xFFFFFFFF), DecodeArm = (\<lambda>x. None), ArmExpandImm = (\<lambda>imm8 r. ucast imm8)\<rparr>
        (ArmTranslator_new (arm_loc 0x1000 AL)) =
       Inr \<lparr>ir = \<lparr>block = \<lparr>location = arm_loc 0x1000 AL, instructions = [],
                              terminal = Interpret (arm_loc 0x1000 AL)\<rparr>\<rparr>,
            current = arm_loc 0x1000 AL, instructions_translated = 0,
            stop_compilation = True, reg_values = replicate 15 None\<rparr>
   \<and> Translate \<lparr>Read32 = (\<lambda>a. 0xFFFFFFFF), DecodeArm = (\<lambda>x. None), ArmExpandImm = (\<lambda>imm8 r. ucast imm8)\<rparr>
        (arm_loc 0x1000 AL) =
       Inr \<lparr>location = arm_loc 0x1000 AL, instructions = [], terminal = Interpret (arm_loc 0x1000 AL)\<rparr>"
  using Translate_never_fails
    [of "\<lparr>Read32 = (\<lambda>a. 0xFFFFFFFF), DecodeArm = (\<lambda>x. None), ArmExpandImm = (\<lambda>imm8 r. ucast imm8)\<rparr>"
      "arm_loc 0x1000 AL" "ArmTranslator_new (arm_loc 0x1000 AL)"]
  by (simp add: ArmTranslator_new_def MicroBuilder_new_def MicroBlock_new_def SetTerm_def)

text \<open>
  C5, what the code does. \<^verbatim>\<open>B\<close> adds \<^verbatim>\<open>imm24\<close> as it is to \<^verbatim>\<open>arm_pc\<close>, and
  the sum never is pc + 8 + (sign-extended imm24 shifted left by 2). At 0x1000
  under AL, each with an empty body: \<^verbatim>\<open>imm24 = 0\<close> links to 0x1000 where the
  latter is 0x1008; \<^verbatim>\<open>imm24 = 8\<close> links to 0x1008 where it is 0x1028;
  \<^verbatim>\<open>imm24 = 0xFFFFFD\<close> (minus 3) links to 0x1000FFD where it is 0xFFC.
\<close>

theorem B_adds_raw_imm24:
  "terminal (block (ir (B_handler c imm24 s))) =
     LinkBlock ((current s)\<lparr>arm_pc := arm_pc (current s) + ucast imm24\<rparr>)
   \<and> arm_pc (current s) + ucast imm24 \<noteq> arm_pc (current s) + 8 + push_bit 2 (scast imm24)
   \<and> Translate (uniform_env 0xEA000000 (B AL 0)) (arm_loc 0x1000 AL) =
     Inr \<lparr>location = arm_loc 0x1000 AL, instructions = [],
          terminal = LinkBlock (arm_loc 0x1000 AL)\<rparr>
   \<and> (0x1000::u32) + 8 + push_bit 2 (scast (0::ArmImm24)) = 0x1008
   \<and> Translate (uniform_env 0xEA000008 (B AL 8)) (arm_loc 0x1000 AL) =
     Inr \<lparr>location = arm_loc 0x1000 AL, instructions = [],
          terminal = LinkBlock (arm_loc 0x1008 AL)\<rparr>
   \<and> (0x1000::u32) + 8 + push_bit 2 (scast (8::ArmImm24)) = 0x1028
   \<and> Translate (uniform_env 0xEAFFFFFD (B AL 0xFFFFFD)) (arm_loc 0x1000 AL) =
     Inr \<lparr>location = arm_loc 0x1000 AL, instructions = [],
          terminal = LinkBlock (arm_loc 0x1000FFD AL)\<rparr>
   \<and> (0x1000::u32) + 8 + push_bit 2 (scast (0xFFFFFD::ArmImm24)) = 0xFFC"
proof -
  have "terminal (block (ir (B_handler c imm24 s))) =
     LinkBlock ((current s)\<lparr>arm_pc := arm_pc (current s) + ucast imm24\<rparr>)"
    by (simp add: B_handler_def SetTerm_def TermLinkBlock_def)
  moreover have
    "arm_pc (current s) + ucast imm24 \<noteq> arm_pc (current s) + 8 + push_bit 2 (scast imm24)"
    by (rule B_target_differs)
  moreover have "Translate (uniform_env 0xEA000000 (B AL 0)) (arm_loc 0x1000 AL) =
     Inr \<lparr>location = arm_loc 0x1000 AL, instructions = [],
          terminal = LinkBlock (arm_loc 0x1000 AL)\<rparr>"
    by (simp add: Translate_eq_loop translate_loop.simps translator_defs)
  moreover have "Translate (uniform_env 0xEA000008 (B AL 8)) (arm_loc 0x1000 AL) =
     Inr \<lparr>location = arm_loc 0x1000 AL, instructions = [],
          terminal = LinkBlock (arm_loc 0x1008 AL)\<rparr>"
    by (simp add: Translate_eq_loop translate_loop.simps translator_defs)
  moreover have "Translate (uniform_env 0xEAFFFFFD (B AL 0xFFFFFD)) (arm_loc 0x1000 AL) =
     Inr \<lparr>location = arm_loc 0x1000 AL, instructions = [],
          terminal = LinkBlock (arm_loc 0x1000FFD AL)\<rparr>"
    by (simp add: Translate_eq_loop translate_loop.simps translator_defs)
  moreover have "(0x1000::u32) + 8 + push_bit 2 (scast (0::ArmImm24)) = 0x1008"
    "(0x1000::u32) + 8 + push_bit 2 (scast (8::ArmImm24)) = 0x1028"
    "(0x1000::u32) + 8 + push_bit 2 (scast (0xFFFFFD::ArmImm24)) = 0xFFC"
    by simp_all
  ultimately show ?thesis by (intro conjI)
qed

text \<open>
  C6. A read of PC through \<^verbatim>\<open>GetReg\<close> appends a new \<^verbatim>\<open>ConstU32\<close> node with the
  value \<^verbatim>\<open>current.arm_pc + 8\<close> and returns it: the handle is the position just
  past the old body, so it is no node that existed before, and the register
  cache is left as it was; two reads of PC in a row return two different nodes.
  After the main loop the cache has its 15 slots, none of them with the index
  of PC, and the body of a translated block holds no \<^verbatim>\<open>GetGPR\<close> node for PC.
\<close>

theorem GetReg_PC_fresh_const:
  "GetReg PC s =
     Inr (length (body s),
          s\<lparr>ir := (ir s)\<lparr>block := (block (ir s))
                 \<lparr>instructions := body s @ [MicroConstU32 (arm_pc (current s) + 8)]\<rparr>\<rparr>\<rparr>)
   \<and> (GetReg PC s = Inr (v1, s1) \<and> GetReg PC s1 = Inr (v2, s2) \<longrightarrow>
        v1 \<noteq> v2 \<and> reg_values s2 = reg_values s
        \<and> body s2 = body s @ [MicroConstU32 (arm_pc (current s) + 8),
                                 MicroConstU32 (arm_pc (current s) + 8)])
   \<and> (\<exists>s'. translate_loop e (ArmTranslator_new loc) = Inr s'
            \<and> length (reg_values s') = 15 \<and> \<not> unat PC < length (reg_values s'))
   \<and> (Translate e loc = Inr blk \<longrightarrow> MicroGetGPR PC \<notin> set (instructions blk))"
proof (intro conjI impI)
  show "GetReg PC s =
     Inr (length (body s),
          s\<lparr>ir := (ir s)\<lparr>block := (block (ir s))
                 \<lparr>instructions := body s @ [MicroConstU32 (arm_pc (current s) + 8)]\<rparr>\<rparr>\<rparr>)"
    by (simp add: GetReg_def ConstU32_def emplace_back_def)
next
  assume a: "GetReg PC s = Inr (v1, s1) \<and> GetReg PC s1 = Inr (v2, s2)"
  have r: "GetReg PC t =
      Inr (length (body t),
           t\<lparr>ir := (ir t)\<lparr>block := (block (ir t))
                  \<lparr>instructions := body t @ [MicroConstU32 (arm_pc (current t) + 8)]\<rparr>\<rparr>\<rparr>)"
    for t
    by (simp add: GetReg_def ConstU32_def emplace_back_def)
  from a r [of s] have v1: "v1 = length (body s)"
    and s1: "s1 = s\<lparr>ir := (ir s)\<lparr>block := (block (ir s))
                  \<lparr>instructions := body s @ [MicroConstU32 (arm_pc (current s) + 8)]\<rparr>\<rparr>\<rparr>"
    by simp_all
  from a r [of s1] have v2: "v2 = length (body s1)"
    and s2: "s2 = s1\<lparr>ir := (ir s1)\<lparr>block := (block (ir s1))
                  \<lparr>instructions := body s1 @ [MicroConstU32 (arm_pc (current s1) + 8)]\<rparr>\<rparr>\<rparr>"
    by simp_all
  from v1 v2 s1 show "v1 \<noteq> v2" by simp
  from s1 s2 show "reg_values s2 = reg_values s" by simp
  from s1 s2 show "body s2 = body s @ [MicroConstU32 (arm_pc (current s) + 8),
                          MicroConstU32 (arm_pc (current s) + 8)]"
    by simp
next
  obtain s' where l: "translate_loop e (ArmTranslator_new loc) = Inr s'"
    using Translate_total [of e loc] by blast
  moreover have "length (reg_values (ArmTranslator_new loc)) = 15"
    by (simp add: ArmTranslator_new_def)
  ultimately have "length (reg_values s') = 15" by (rule translate_loop_length)
  with l show "\<exists>s'. translate_loop e (ArmTranslator_new loc) = Inr s'
            \<and> length (reg_values s') = 15 \<and> \<not> unat PC < length (reg_values s')"
    by auto
next
  assume "Translate e loc = Inr blk"
  then have "list_all emitted_ok (instructions blk)" by (rule Translate_nodes)
  then show "MicroGetGPR PC \<notin> set (instructions blk)"
    by (auto simp: list_all_iff)
qed

theorem GetReg_PC_fresh_const_witness:
  "GetReg PC (ArmTranslator_new (arm_loc 0x1000 AL)) =
     Inr (0, (ArmTranslator_new (arm_loc 0x1000 AL))
               \<lparr>ir := \<lparr>block = \<lparr>location = arm_loc 0x1000 AL,
                                 instructions = [MicroConstU32 0x1008],
                                 terminal = ReturnToDispatch\<rparr>\<rparr>\<rparr>)
   \<and> GetReg PC ((ArmTranslator_new (arm_loc 0x1000 AL))
               \<lparr>ir := \<lparr>block = \<lparr>location = arm_loc 0x1000 AL,
                                 instructions = [MicroConstU32 0x1008],
                                 terminal = ReturnToDispatch\<rparr>\<rparr>\<rparr>) =
     Inr (1, (ArmTranslator_new (arm_loc 0x1000 AL))
               \<lparr>ir := \<lparr>block = \<lparr>location = arm_loc 0x1000 AL,
                                 instructions = [MicroConstU32 0x1008, MicroConstU32 0x1008],
                                 terminal = ReturnToDispatch\<rparr>\<rparr>\<rparr>)
   \<and> (0::value_ref) \<noteq> 1
   \<and> Translate (uniform_env 0xE28F1005 (ADD_imm AL False PC 1 0 5)) (arm_loc 0x1000 AL) =
       Inr \<lparr>location = arm_loc 0x1000 AL,
            instructions = [MicroConstU32 0x1008, MicroConstU32 5,
                            MicroInst OpAdd [0, 1] MicroArmFlags_None],
            terminal = ReturnToDispatch\<rparr>
   \<and> MicroGetGPR PC \<notin> set [MicroConstU32 0x1008, MicroConstU32 5,
                            MicroInst OpAdd [0, 1] MicroArmFlags_None]"
proof -
  let ?e = "uniform_env 0xE28F1005 (ADD_imm AL False PC 1 0 5)"
  let ?s = "ArmTranslator_new (arm_loc 0x1000 AL)"
  let ?s1 = "?s\<lparr>ir := \<lparr>block = \<lparr>location = arm_loc 0x1000 AL,
                                 instructions = [MicroConstU32 0x1008],
                                 terminal = ReturnToDispatch\<rparr>\<rparr>\<rparr>"
  let ?s2 = "?s\<lparr>ir := \<lparr>block = \<lparr>location = arm_loc 0x1000 AL,
                                 instructions = [MicroConstU32 0x1008, MicroConstU32 0x1008],
                                 terminal = ReturnToDispatch\<rparr>\<rparr>\<rparr>"
  let ?blk = "\<lparr>location = arm_loc 0x1000 AL,
            instructions = [MicroConstU32 0x1008, MicroConstU32 5,
                            MicroInst OpAdd [0, 1] MicroArmFlags_None],
            terminal = ReturnToDispatch\<rparr>"
  have t: "Translate ?e (arm_loc 0x1000 AL) = Inr ?blk"
    by (simp add: Translate_eq_loop translate_loop.simps translator_defs)
  have g1: "GetReg PC ?s = Inr (0, ?s1)"
    by (simp add: translator_defs)
  have g2: "GetReg PC ?s1 = Inr (1, ?s2)"
    by (simp add: translator_defs)
  from GetReg_PC_fresh_const [of ?s 0 ?s1 1 ?s2 ?e "arm_loc 0x1000 AL" ?blk] t g1 g2
  show ?thesis by simp
qed

text \<open>
  C7. For a register r other than PC, on a translator whose cache has its 15
  elements: with an empty cache slot, \<^verbatim>\<open>GetReg\<close> appends exactly one
  \<^verbatim>\<open>GetGPR(r)\<close> node, stores it in the slot and returns it; with a filled slot it
  returns the cached node and changes nothing; so a second \<^verbatim>\<open>GetReg\<close> after a
  first returns the same node and leaves the translator as it is; a read or a
  write of another register leaves the slot of r as it is; and after
  \<^verbatim>\<open>SetReg(r, w)\<close>, \<^verbatim>\<open>GetReg(r)\<close> returns w.
\<close>

theorem GetReg_cached:
  assumes "r \<noteq> PC" and "length (reg_values s) = 15"
  shows "(reg_values s ! unat r = None \<longrightarrow>
            GetReg r s =
              Inr (length (body s),
                   s\<lparr>ir := (ir s)\<lparr>block := (block (ir s))
                          \<lparr>instructions := body s @ [MicroGetGPR r]\<rparr>\<rparr>,
                     reg_values := (reg_values s)[unat r := Some (length (body s))]\<rparr>))
       \<and> (reg_values s ! unat r = Some v \<longrightarrow> GetReg r s = Inr (v, s))
       \<and> (GetReg r s = Inr (v1, s1) \<longrightarrow> GetReg r s1 = Inr (v1, s1))
       \<and> (r' \<noteq> r \<and> GetReg r' s = Inr (v3, s3) \<longrightarrow>
            reg_values s3 ! unat r = reg_values s ! unat r)
       \<and> (r' \<noteq> r \<and> SetReg r' w s = Inr s4 \<longrightarrow>
            reg_values s4 ! unat r = reg_values s ! unat r)
       \<and> (SetReg r w s = Inr s2 \<longrightarrow> GetReg r s2 = Inr (w, s2))"
proof -
  from assms have i: "unat r < length (reg_values s)"
    by (simp add: unat_reg_less_15)
  have o: "unat r' \<noteq> unat r" if "r' \<noteq> r"
    using that by (simp add: word_unat_eq_iff)
  have cached: "(reg_values s ! unat r = None \<longrightarrow>
            GetReg r s =
              Inr (length (body s),
                   s\<lparr>ir := (ir s)\<lparr>block := (block (ir s))
                          \<lparr>instructions := body s @ [MicroGetGPR r]\<rparr>\<rparr>,
                     reg_values := (reg_values s)[unat r := Some (length (body s))]\<rparr>))
       \<and> (reg_values s ! unat r = Some v \<longrightarrow> GetReg r s = Inr (v, s))
       \<and> (GetReg r s = Inr (v1, s1) \<longrightarrow> GetReg r s1 = Inr (v1, s1))
       \<and> (SetReg r w s = Inr s2 \<longrightarrow> GetReg r s2 = Inr (w, s2))"
    using assms(1) i
    by (auto simp: GetReg_def SetReg_def GetGPR_def emplace_back_def Let_def
        split: option.splits)
  have other_read: "reg_values s3 ! unat r = reg_values s ! unat r"
    if "r' \<noteq> r \<and> GetReg r' s = Inr (v3, s3)"
    using that o
    by (auto simp: GetReg_def GetGPR_def ConstU32_def emplace_back_def Let_def
        split: if_splits option.splits)
  have other_write: "reg_values s4 ! unat r = reg_values s ! unat r"
    if "r' \<noteq> r \<and> SetReg r' w s = Inr s4"
    using that o by (auto simp: SetReg_def Let_def split: if_splits)
  from cached other_read other_write show ?thesis by blast
qed

theorem GetReg_cached_witness:
  "(2::ArmReg) \<noteq> PC \<and> length (reg_values (ArmTranslator_new (arm_loc 0x1000 AL))) = 15
   \<and> reg_values (ArmTranslator_new (arm_loc 0x1000 AL)) ! unat (2::ArmReg) = None
   \<and> GetReg 2 (ArmTranslator_new (arm_loc 0x1000 AL)) =
       Inr (0, (ArmTranslator_new (arm_loc 0x1000 AL))
                 \<lparr>ir := \<lparr>block = \<lparr>location = arm_loc 0x1000 AL,
                                   instructions = [MicroGetGPR 2],
                                   terminal = ReturnToDispatch\<rparr>\<rparr>,
                   reg_values := (replicate 15 None)[2 := Some 0]\<rparr>)
   \<and> GetReg 2 ((ArmTranslator_new (arm_loc 0x1000 AL))
                 \<lparr>ir := \<lparr>block = \<lparr>location = arm_loc 0x1000 AL,
                                   instructions = [MicroGetGPR 2],
                                   terminal = ReturnToDispatch\<rparr>\<rparr>,
                   reg_values := (replicate 15 None)[2 := Some 0]\<rparr>) =
       Inr (0, (ArmTranslator_new (arm_loc 0x1000 AL))
                 \<lparr>ir := \<lparr>block = \<lparr>location = arm_loc 0x1000 AL,
                                   instructions = [MicroGetGPR 2],
                                   terminal = ReturnToDispatch\<rparr>\<rparr>,
                   reg_values := (replicate 15 None)[2 := Some 0]\<rparr>)
   \<and> (3::ArmReg) \<noteq> 2
   \<and> GetReg 3 (ArmTranslator_new (arm_loc 0x1000 AL)) =
       Inr (0, (ArmTranslator_new (arm_loc 0x1000 AL))
                 \<lparr>ir := \<lparr>block = \<lparr>location = arm_loc 0x1000 AL,
                                   instructions = [MicroGetGPR 3],
                                   terminal = ReturnToDispatch\<rparr>\<rparr>,
                   reg_values := (replicate 15 None)[3 := Some 0]\<rparr>)
   \<and> (replicate 15 None)[3 := Some (0::value_ref)] ! unat (2::ArmReg) = None
   \<and> SetReg 3 7 (ArmTranslator_new (arm_loc 0x1000 AL)) =
       Inr ((ArmTranslator_new (arm_loc 0x1000 AL))
              \<lparr>reg_values := (replicate 15 None)[3 := Some 7]\<rparr>)
   \<and> (replicate 15 None)[3 := Some (7::value_ref)] ! unat (2::ArmReg) = None
   \<and> SetReg 2 7 (ArmTranslator_new (arm_loc 0x1000 AL)) =
       Inr ((ArmTranslator_new (arm_loc 0x1000 AL))
              \<lparr>reg_values := (replicate 15 None)[2 := Some 7]\<rparr>)
   \<and> GetReg 2 ((ArmTranslator_new (arm_loc 0x1000 AL))
                 \<lparr>reg_values := (replicate 15 None)[2 := Some 7]\<rparr>) =
       Inr (7, (ArmTranslator_new (arm_loc 0x1000 AL))
                 \<lparr>reg_values := (replicate 15 None)[2 := Some 7]\<rparr>)"
proof -
  let ?s = "ArmTranslator_new (arm_loc 0x1000 AL)"
  let ?s1 = "?s\<lparr>ir := \<lparr>block = \<lparr>location = arm_loc 0x1000 AL,
                                   instructions = [MicroGetGPR 2],
                                   terminal = ReturnToDispatch\<rparr>\<rparr>,
                   reg_values := (replicate 15 None)[2 := Some 0]\<rparr>"
  let ?s3 = "?s\<lparr>ir := \<lparr>block = \<lparr>location = arm_loc 0x1000 AL,
                                   instructions = [MicroGetGPR 3],
                                   terminal = ReturnToDispatch\<rparr>\<rparr>,
                   reg_values := (replicate 15 None)[3 := Some 0]\<rparr>"
  let ?s4 = "?s\<lparr>reg_values := (replicate 15 None)[3 := Some 7]\<rparr>"
  let ?s2 = "?s\<lparr>reg_values := (replicate 15 None)[2 := Some 7]\<rparr>"
  have n: "(2::ArmReg) \<noteq> PC" by simp
  have l: "length (reg_values ?s) = 15" by (simp add: ArmTranslator_new_def)
  have e: "reg_values ?s ! unat (2::ArmReg) = None" by (simp add: ArmTranslator_new_def)
  have d: "(3::ArmReg) \<noteq> 2" by simp
  have g3: "GetReg 3 ?s = Inr (0, ?s3)" by (simp add: translator_defs)
  have w3: "SetReg 3 7 ?s = Inr ?s4" by (simp add: SetReg_def ArmTranslator_new_def)
  have w2: "SetReg 2 7 ?s = Inr ?s2" by (simp add: SetReg_def ArmTranslator_new_def)
  note w = GetReg_cached [OF n l, of 0 0 ?s1 3 0 ?s3 7 ?s4 ?s2]
  from w e have g: "GetReg 2 ?s = Inr (0, ?s1)"
    by (simp add: ArmTranslator_new_def MicroBuilder_new_def MicroBlock_new_def
        MicroTerminal_default_def)
  from w g have g': "GetReg 2 ?s1 = Inr (0, ?s1)" by blast
  from w d g3 have f3: "reg_values ?s3 ! unat (2::ArmReg) = reg_values ?s ! unat (2::ArmReg)"
    by blast
  from w d w3 have f4: "reg_values ?s4 ! unat (2::ArmReg) = reg_values ?s ! unat (2::ArmReg)"
    by blast
  from w w2 have g2: "GetReg 2 ?s2 = Inr (7, ?s2)" by blast
  from f3 e have f3': "(replicate 15 None)[3 := Some (0::value_ref)] ! unat (2::ArmReg) = None"
    by simp
  from f4 e have f4': "(replicate 15 None)[3 := Some (7::value_ref)] ! unat (2::ArmReg) = None"
    by simp
  from n l e g g' d g3 f3' w3 f4' w2 g2 show ?thesis by (intro conjI)
qed

text \<open>
  C8. In the body of every translated block, the write flags of every
  \<^verbatim>\<open>MicroInst\<close> node lie within the default write flags of its opcode. When the
  condition passes, \<^verbatim>\<open>ADD_imm\<close> appends its \<^verbatim>\<open>Add\<close> node with the write flags
  NZCV if S is set and None if S is clear; the default write flags of \<^verbatim>\<open>Add\<close>
  are NZCV, and both NZCV and None lie within them.
\<close>

theorem write_flags_within_default:
  "(Translate e loc = Inr blk \<longrightarrow>
      (\<forall>op args flags. MicroInst op args flags \<in> set (instructions blk) \<longrightarrow>
         flags AND default_write_flags op = flags))
   \<and> (c = cond (current s) \<and> ADD_imm_handler e c S n d rotate' imm8 s = Inr s' \<longrightarrow>
        (\<exists>Rn imm32. MicroInst OpAdd [Rn, imm32]
           (if S then MicroArmFlags_NZCV else MicroArmFlags_None) \<in> set (body s')))
   \<and> default_write_flags OpAdd = MicroArmFlags_NZCV
   \<and> MicroArmFlags_NZCV AND default_write_flags OpAdd = MicroArmFlags_NZCV
   \<and> MicroArmFlags_None AND default_write_flags OpAdd = MicroArmFlags_None"
proof (intro conjI impI allI)
  fix op args flags
  assume "Translate e loc = Inr blk" and m: "MicroInst op args flags \<in> set (instructions blk)"
  then have "list_all emitted_ok (instructions blk)" by (simp add: Translate_nodes)
  with m have "emitted_ok (MicroInst op args flags)" by (auto simp: list_all_iff)
  then show "flags AND default_write_flags op = flags" by simp
next
  assume a: "c = cond (current s) \<and> ADD_imm_handler e c S n d rotate' imm8 s = Inr s'"
  then obtain Rn s2 where "GetReg n s = Inr (Rn, s2)"
    by (auto simp: ADD_imm_handler_def ConditionPassed_def split: sum.splits)
  with a show "\<exists>Rn imm32. MicroInst OpAdd [Rn, imm32]
          (if S then MicroArmFlags_NZCV else MicroArmFlags_None) \<in> set (body s')"
    using ADD_imm_Add_node by blast
qed (simp_all add: MicroArmFlags_None_def)

theorem write_flags_within_default_witness:
  "Translate (uniform_env 0xE2921005 (ADD_imm AL True 2 1 0 5)) (arm_loc 0x1000 AL) =
     Inr \<lparr>location = arm_loc 0x1000 AL,
          instructions = [MicroGetGPR 2, MicroConstU32 5, MicroInst OpAdd [0, 1] MicroArmFlags_NZCV],
          terminal = ReturnToDispatch\<rparr>
   \<and> MicroInst OpAdd [0, 1] MicroArmFlags_NZCV \<in>
        set [MicroGetGPR 2, MicroConstU32 5, MicroInst OpAdd [0, 1] MicroArmFlags_NZCV]
   \<and> MicroArmFlags_NZCV AND default_write_flags OpAdd = MicroArmFlags_NZCV
   \<and> AL = cond (current (ArmTranslator_new (arm_loc 0x1000 AL)))
   \<and> ADD_imm_handler (uniform_env 0xE2921005 (ADD_imm AL True 2 1 0 5)) AL True 2 1 0 5
        (ArmTranslator_new (arm_loc 0x1000 AL)) =
       Inr \<lparr>ir = \<lparr>block = \<lparr>location = arm_loc 0x1000 AL,
                              instructions = [MicroGetGPR 2, MicroConstU32 5,
                                              MicroInst OpAdd [0, 1] MicroArmFlags_NZCV],
                              terminal = ReturnToDispatch\<rparr>\<rparr>,
            current = arm_loc 0x1004 AL, instructions_translated = 0,
            stop_compilation = False,
            reg_values = (replicate 15 None)[2 := Some 0, 1 := Some 2]\<rparr>
   \<and> (\<exists>Rn imm32. MicroInst OpAdd [Rn, imm32] MicroArmFlags_NZCV \<in>
        set [MicroGetGPR 2, MicroConstU32 5, MicroInst OpAdd [0, 1] MicroArmFlags_NZCV])"
proof -
  let ?e = "uniform_env 0xE2921005 (ADD_imm AL True 2 1 0 5)"
  let ?s = "ArmTranslator_new (arm_loc 0x1000 AL)"
  let ?blk = "\<lparr>location = arm_loc 0x1000 AL,
          instructions = [MicroGetGPR 2, MicroConstU32 5, MicroInst OpAdd [0, 1] MicroArmFlags_NZCV],
          terminal = ReturnToDispatch\<rparr>"
  let ?s' = "\<lparr>ir = \<lparr>block = ?blk\<rparr>,
            current = arm_loc 0x1004 AL, instructions_translated = 0,
            stop_compilation = False,
            reg_values = (replicate 15 None)[2 := Some 0, 1 := Some 2]\<rparr>"
  have t: "Translate ?e (arm_loc 0x1000 AL) = Inr ?blk"
    by (simp add: Translate_eq_loop translate_loop.simps translator_defs)
  have m: "MicroInst OpAdd [0, 1] MicroArmFlags_NZCV \<in> set (instructions ?blk)" by simp
  have c: "AL = cond (current ?s)" by (simp add: ArmTranslator_new_def)
  have h: "ADD_imm_handler ?e AL True 2 1 0 5 ?s = Inr ?s'"
    by (simp add: translator_defs numeral_2_eq_2 [symmetric])
  note w = write_flags_within_default [of ?e "arm_loc 0x1000 AL" ?blk AL ?s True 2 1 0 5 ?s']
  from w t m have f: "MicroArmFlags_NZCV AND default_write_flags OpAdd = MicroArmFlags_NZCV"
    by blast
  from w c h have "\<exists>Rn imm32. MicroInst OpAdd [Rn, imm32] MicroArmFlags_NZCV \<in> set (body ?s')"
    by simp
  with t c h f show ?thesis by simp
qed

text \<open>
  C9. When the main loop ends with the stop flag clear, that is through the test
  of \<^verbatim>\<open>current.arm_pc & 0xFFF\<close>, no terminal has been set: the returned block
  carries the default-constructed terminal, \<^verbatim>\<open>ReturnToDispatch\<close>.
\<close>

theorem Translate_default_terminal:
  assumes "translate_loop e (ArmTranslator_new loc) = Inr s'" and "\<not> stop_compilation s'"
  shows "Translate e loc = Inr (block (ir s'))
       \<and> terminal (block (ir s')) = ReturnToDispatch
       \<and> MicroTerminal_default = ReturnToDispatch"
proof -
  have "\<not> stop_compilation (ArmTranslator_new loc) \<longrightarrow>
          terminal (block (ir (ArmTranslator_new loc))) = ReturnToDispatch"
    by (simp add: ArmTranslator_new_def MicroBuilder_new_def MicroBlock_new_def
        MicroTerminal_default_def)
  with assms(1) have "\<not> stop_compilation s' \<longrightarrow> terminal (block (ir s')) = ReturnToDispatch"
    by (rule translate_loop_running_terminal)
  with assms show ?thesis
    by (simp add: Translate_eq_loop MicroTerminal_default_def)
qed

theorem Translate_default_terminal_witness:
  "translate_loop (uniform_env 0xE2821005 (ADD_imm AL False 2 1 0 5))
       (ArmTranslator_new (arm_loc 0x1000 AL)) =
     Inr \<lparr>ir = \<lparr>block = \<lparr>location = arm_loc 0x1000 AL,
                            instructions = [MicroGetGPR 2, MicroConstU32 5,
                                            MicroInst OpAdd [0, 1] MicroArmFlags_None],
                            terminal = ReturnToDispatch\<rparr>\<rparr>,
          current = arm_loc 0x1004 AL, instructions_translated = 1,
          stop_compilation = False,
          reg_values = (replicate 15 None)[2 := Some 0, 1 := Some 2]\<rparr>
   \<and> Translate (uniform_env 0xE2821005 (ADD_imm AL False 2 1 0 5)) (arm_loc 0x1000 AL) =
       Inr \<lparr>location = arm_loc 0x1000 AL,
            instructions = [MicroGetGPR 2, MicroConstU32 5,
                            MicroInst OpAdd [0, 1] MicroArmFlags_None],
            terminal = ReturnToDispatch\<rparr>"
proof -
  let ?e = "uniform_env 0xE2821005 (ADD_imm AL False 2 1 0 5)"
  let ?s' = "\<lparr>ir = \<lparr>block = \<lparr>location = arm_loc 0x1000 AL,
                            instructions = [MicroGetGPR 2, MicroConstU32 5,
                                            MicroInst OpAdd [0, 1] MicroArmFlags_None],
                            terminal = ReturnToDispatch\<rparr>\<rparr>,
          current = arm_loc 0x1004 AL, instructions_translated = 1,
          stop_compilation = False,
          reg_values = (replicate 15 None)[2 := Some 0, 1 := Some 2]\<rparr>"
  have l: "translate_loop ?e (ArmTranslator_new (arm_loc 0x1000 AL)) = Inr ?s'"
    by (simp add: translate_loop.simps translator_defs numeral_2_eq_2 [symmetric])
  have r: "\<not> stop_compilation ?s'" by simp
  from Translate_default_terminal [OF l r] l show ?thesis by simp
qed

text \<open>
  C10. The register cache has 15 elements and \<^verbatim>\<open>SetReg\<close> indexes it with the
  register number: on a translator whose cache has its 15 elements, \<^verbatim>\<open>SetReg\<close>
  reaches past the end exactly when the register is PC, and stores the value
  exactly when the register number is at most 14. \<^verbatim>\<open>ADD_imm\<close> returns without an
  access out of bounds for every destination, because it tests the destination
  before it would call \<^verbatim>\<open>SetReg\<close>. When the condition passes and \<^verbatim>\<open>GetReg\<close> has
  returned the node \<open>Rn\<close> in the state \<open>s2\<close>, the handler has appended the
  constant and the \<^verbatim>\<open>Add\<close> node (state \<open>st\<close>, value \<open>result\<close>); \<^verbatim>\<open>SetReg\<close> on PC
  would reach past the end there. With the destination PC the handler does not
  call it: its result is that of \<^verbatim>\<open>ALUWritePC\<close> on \<open>result\<close>, with the program
  counter advanced, which leaves the register cache as \<^verbatim>\<open>GetReg\<close> left it,
  appends the node \<^verbatim>\<open>AluWritePC\<close> of \<open>result\<close> and sets the stop flag. With any
  other destination \<open>d\<close> the result is that of \<^verbatim>\<open>SetReg\<close>: slot \<open>d\<close> of the cache
  holds \<open>result\<close> and no further node is appended.
\<close>

theorem SetReg_in_bounds:
  assumes "length (reg_values s) = 15"
  shows "(SetReg reg v s = Inl OutOfBounds) = (reg = PC)
       \<and> (SetReg reg v s = Inr (s\<lparr>reg_values := (reg_values s)[unat reg := Some v]\<rparr>))
            = (unat reg \<le> 14)
       \<and> (\<exists>s'. ADD_imm_handler e c S n d rotate' imm8 s = Inr s')
       \<and> (c = cond (current s) \<and> GetReg n s = Inr (Rn, s2) \<longrightarrow>
            (let result = Suc (length (body s2));
                 st = s2\<lparr>ir := (ir s2)\<lparr>block := (block (ir s2))\<lparr>instructions :=
                        body s2 @ [MicroConstU32 (ArmExpandImm e imm8 rotate'),
                                   MicroInst OpAdd [Rn, length (body s2)]
                                     (if S then MicroArmFlags_NZCV else MicroArmFlags_None)]\<rparr>\<rparr>\<rparr>
             in SetReg PC result st = Inl OutOfBounds
              \<and> ADD_imm_handler e c S n PC rotate' imm8 s = Inr (advance_pc (ALUWritePC result st))
              \<and> reg_values (ALUWritePC result st) = reg_values s2
              \<and> body (ALUWritePC result st) =
                  body st @ [MicroInst OpAluWritePC [result] MicroArmFlags_None]
              \<and> stop_compilation (ALUWritePC result st)
              \<and> (d \<noteq> PC \<longrightarrow>
                   ADD_imm_handler e c S n d rotate' imm8 s =
                     Inr (advance_pc (st\<lparr>reg_values := (reg_values s2)[unat d := Some result]\<rparr>)))))"
proof -
  have "unat reg < 15 \<or> reg = PC" using unat_reg_less_15 by blast
  then have a: "(SetReg reg v s = Inl OutOfBounds) = (reg = PC)"
    using assms by (auto simp: SetReg_def Let_def)
  have b: "(SetReg reg v s = Inr (s\<lparr>reg_values := (reg_values s)[unat reg := Some v]\<rparr>))
            = (unat reg \<le> 14)"
    using assms by (auto simp: SetReg_def Let_def)
  have r: "(let result = Suc (length (body s2));
                 st = s2\<lparr>ir := (ir s2)\<lparr>block := (block (ir s2))\<lparr>instructions :=
                        body s2 @ [MicroConstU32 (ArmExpandImm e imm8 rotate'),
                                   MicroInst OpAdd [Rn, length (body s2)]
                                     (if S then MicroArmFlags_NZCV else MicroArmFlags_None)]\<rparr>\<rparr>\<rparr>
             in SetReg PC result st = Inl OutOfBounds
              \<and> ADD_imm_handler e c S n PC rotate' imm8 s = Inr (advance_pc (ALUWritePC result st))
              \<and> reg_values (ALUWritePC result st) = reg_values s2
              \<and> body (ALUWritePC result st) =
                  body st @ [MicroInst OpAluWritePC [result] MicroArmFlags_None]
              \<and> stop_compilation (ALUWritePC result st)
              \<and> (d \<noteq> PC \<longrightarrow>
                   ADD_imm_handler e c S n d rotate' imm8 s =
                     Inr (advance_pc (st\<lparr>reg_values := (reg_values s2)[unat d := Some result]\<rparr>))))"
    if c: "c = cond (current s)" and g: "GetReg n s = Inr (Rn, s2)"
  proof -
    from g assms have l2: "length (reg_values s2) = 15" by (simp add: GetReg_length)
    have u: "unat d < 15" if "d \<noteq> PC" using that unat_reg_less_15 [of d] by blast
    from c g l2 u show ?thesis
      by (simp add: Let_def ADD_imm_handler_def ConditionPassed_def SetReg_def ALUWritePC_def
          ConstU32_def Inst_def emplace_back_def SetTerm_def)
  qed
  from a b ADD_imm_total [OF assms] r show ?thesis by blast
qed

theorem SetReg_in_bounds_witness:
  "length (reg_values (ArmTranslator_new (arm_loc 0x1000 AL))) = 15
   \<and> SetReg PC 7 (ArmTranslator_new (arm_loc 0x1000 AL)) = Inl OutOfBounds
   \<and> SetReg 14 7 (ArmTranslator_new (arm_loc 0x1000 AL)) \<noteq> Inl OutOfBounds
   \<and> (\<exists>s'. ADD_imm_handler (uniform_env 0xE282F005 (ADD_imm AL False 2 PC 0 5)) AL False 2 PC 0 5
              (ArmTranslator_new (arm_loc 0x1000 AL)) = Inr s')
   \<and> AL = cond (current (ArmTranslator_new (arm_loc 0x1000 AL)))
   \<and> GetReg 2 (ArmTranslator_new (arm_loc 0x1000 AL)) =
       Inr (0, (ArmTranslator_new (arm_loc 0x1000 AL))
                 \<lparr>ir := snd (GetGPR 2 (ir (ArmTranslator_new (arm_loc 0x1000 AL)))),
                  reg_values := (replicate 15 None)[2 := Some 0]\<rparr>)
   \<and> (case ADD_imm_handler (uniform_env 0xE282F005 (ADD_imm AL False 2 PC 0 5)) AL False 2 PC 0 5
              (ArmTranslator_new (arm_loc 0x1000 AL)) of
         Inl err \<Rightarrow> False
       | Inr s' \<Rightarrow>
           body s' = [MicroGetGPR 2, MicroConstU32 5, MicroInst OpAdd [0, 1] MicroArmFlags_None,
                      MicroInst OpAluWritePC [2] MicroArmFlags_None]
           \<and> reg_values s' = (replicate 15 None)[2 := Some 0]
           \<and> stop_compilation s')
   \<and> (1 :: ArmReg) \<noteq> PC
   \<and> (case ADD_imm_handler (uniform_env 0xE2821005 (ADD_imm AL False 2 1 0 5)) AL False 2 1 0 5
              (ArmTranslator_new (arm_loc 0x1000 AL)) of
         Inl err \<Rightarrow> False
       | Inr s' \<Rightarrow>
           body s' = [MicroGetGPR 2, MicroConstU32 5, MicroInst OpAdd [0, 1] MicroArmFlags_None]
           \<and> reg_values s' = (replicate 15 None)[2 := Some 0, 1 := Some 2]
           \<and> \<not> stop_compilation s')"
proof -
  let ?s0 = "ArmTranslator_new (arm_loc 0x1000 AL)"
  let ?s2 = "?s0\<lparr>ir := snd (GetGPR 2 (ir ?s0)), reg_values := (replicate 15 None)[2 := Some 0]\<rparr>"
  have l: "length (reg_values ?s0) = 15"
    by (simp add: ArmTranslator_new_def)
  have c: "AL = cond (current ?s0)"
    by (simp add: ArmTranslator_new_def)
  have g: "GetReg 2 ?s0 = Inr (0, ?s2)"
    by (simp add: translator_defs)
  have p: "(1 :: ArmReg) \<noteq> PC" by simp
  have b: "body ?s2 = [MicroGetGPR 2]"
    by (simp add: translator_defs)
  from SetReg_in_bounds [OF l, of PC 7] SetReg_in_bounds [OF l, of 14 7]
    SetReg_in_bounds [OF l, of _ _ "uniform_env 0xE282F005 (ADD_imm AL False 2 PC 0 5)"
      AL False 2 PC 0 5 0 ?s2]
    SetReg_in_bounds [OF l, of _ _ "uniform_env 0xE2821005 (ADD_imm AL False 2 1 0 5)"
      AL False 2 1 0 5 0 ?s2] l c g p b
  show ?thesis
    by (simp add: Let_def advance_pc_def ALUWritePC_def Inst_def emplace_back_def SetTerm_def
        ArmTranslator_new_def numeral_2_eq_2 [symmetric])
qed

end
